theory Spec2Isabelle
  imports Main "HOL-Library.Word"
begin

unbundle bit_operations_syntax

section \<open>Python values and built-in operations used by the endpoints\<close>

text \<open>
  The request body is whatever \<^verbatim>\<open>flask.request.get_json()\<close> parsed: a JSON value.
  JSON numbers are modelled as integers (floating point numbers are left out), strings
  as lists of 8-bit characters, and a JSON object as the list of its entries in
  insertion order (the parser keeps one entry per key, so the keys of a parsed object
  are distinct).
\<close>

datatype json =
    JNull
  | JBool bool
  | JInt int
  | JStr string
  | JList "json list"
  | JDict "(string \<times> json) list"

text \<open>The exceptions that the modelled code can raise.\<close>

datatype pyerror = TypeError | KeyError | AttributeError | InvalidId | Full

text \<open>Sequencing of computations that may raise: the first exception wins.\<close>

definition bnd :: "pyerror + 'a \<Rightarrow> ('a \<Rightarrow> pyerror + 'b) \<Rightarrow> pyerror + 'b" where
  "bnd m f = (case m of Inl e \<Rightarrow> Inl e | Inr x \<Rightarrow> f x)"

text \<open>\<^verbatim>\<open>k in s\<close> on two strings: \<open>k\<close> occurs in \<open>s\<close> as a contiguous substring.\<close>

fun substring :: "string \<Rightarrow> string \<Rightarrow> bool" where
  "substring k [] = (k = [])"
| "substring k (c # cs) = (take (length k) (c # cs) = k \<or> substring k cs)"

text \<open>
  \<^verbatim>\<open>k in x\<close> for a string \<open>k\<close>: key membership on a dict, element membership on a
  list, substring test on a string, and \<^verbatim>\<open>TypeError\<close> (argument is not iterable) on
  \<^verbatim>\<open>None\<close>, booleans and numbers.
\<close>

fun py_in :: "string \<Rightarrow> json \<Rightarrow> pyerror + bool" where
  "py_in k (JDict kvs) = Inr (k \<in> set (map fst kvs))"
| "py_in k (JList xs) = Inr (JStr k \<in> set xs)"
| "py_in k (JStr s) = Inr (substring k s)"
| "py_in k JNull = Inl TypeError"
| "py_in k (JBool b) = Inl TypeError"
| "py_in k (JInt i) = Inl TypeError"

text \<open>
  \<^verbatim>\<open>x[k]\<close> for a string \<open>k\<close>: the value on a dict (\<^verbatim>\<open>KeyError\<close> when the key is
  absent), \<^verbatim>\<open>TypeError\<close> on everything else (list and string indices must be integers,
  the other values are not subscriptable).
\<close>

fun getitem :: "json \<Rightarrow> string \<Rightarrow> pyerror + json" where
  "getitem (JDict kvs) k = (case map_of kvs k of None \<Rightarrow> Inl KeyError | Some v \<Rightarrow> Inr v)"
| "getitem (JList xs) k = Inl TypeError"
| "getitem (JStr s) k = Inl TypeError"
| "getitem JNull k = Inl TypeError"
| "getitem (JBool b) k = Inl TypeError"
| "getitem (JInt i) k = Inl TypeError"

text \<open>\<^verbatim>\<open>sep.join(xs)\<close> on a list of strings.\<close>

fun join :: "string \<Rightarrow> string list \<Rightarrow> string" where
  "join sep [] = []"
| "join sep [x] = x"
| "join sep (x # y # ys) = x @ sep @ join sep (y # ys)"

text \<open>
  \<^verbatim>\<open>sep.join(xs)\<close> on a list of arbitrary values: \<^verbatim>\<open>TypeError\<close> unless every
  item is a string.
\<close>

fun as_str :: "json \<Rightarrow> string option" where
  "as_str (JStr s) = Some s"
| "as_str v = None"

definition join_values :: "string \<Rightarrow> json list \<Rightarrow> pyerror + string" where
  "join_values sep vs =
     (case those (map as_str vs) of None \<Rightarrow> Inl TypeError | Some ss \<Rightarrow> Inr (join sep ss))"

subsection \<open>Rendering a value with \<^verbatim>\<open>str.format\<close>\<close>

definition hexdigit :: "nat \<Rightarrow> char" where
  "hexdigit n = ''0123456789abcdef'' ! (n mod 16)"

function str_nat :: "nat \<Rightarrow> string" where
  "str_nat n = (if n < 10 then [hexdigit n] else str_nat (n div 10) @ [hexdigit (n mod 10)])"
  by pat_completeness auto
termination
  by (relation "measure id") auto

definition str_int :: "int \<Rightarrow> string" where
  "str_int i = (if i < 0 then CHR ''-'' # str_nat (nat (- i)) else str_nat (nat i))"

text \<open>
  \<^verbatim>\<open>repr\<close> of a string: single quotes unless the string holds a single quote and no
  double quote; backslash, the chosen quote, newline, carriage return and tab are
  escaped, the other non-printable characters are written \<^verbatim>\<open>\xNN\<close>.
\<close>

definition printable :: "char \<Rightarrow> bool" where
  "printable c = (let n = (of_char c :: nat) in
     \<not> (n < 32 \<or> (127 \<le> n \<and> n \<le> 160) \<or> n = 173))"

definition repr_char :: "char \<Rightarrow> char \<Rightarrow> string" where
  "repr_char q c =
     (if c = CHR 0x5C then [CHR 0x5C, CHR 0x5C]
      else if c = q then [CHR 0x5C, q]
      else if c = CHR 0x0A then [CHR 0x5C, CHR ''n'']
      else if c = CHR 0x0D then [CHR 0x5C, CHR ''r'']
      else if c = CHR 0x09 then [CHR 0x5C, CHR ''t'']
      else if \<not> printable c then
        [CHR 0x5C, CHR ''x'', hexdigit (of_char c div 16), hexdigit (of_char c mod 16)]
      else [c])"

definition repr_str :: "string \<Rightarrow> string" where
  "repr_str s =
     (let q = (if CHR 0x27 \<in> set s \<and> CHR 0x22 \<notin> set s then CHR 0x22 else CHR 0x27)
      in [q] @ concat (map (repr_char q) s) @ [q])"

fun repr :: "json \<Rightarrow> string" where
  "repr JNull = ''None''"
| "repr (JBool b) = (if b then ''True'' else ''False'')"
| "repr (JInt i) = str_int i"
| "repr (JStr s) = repr_str s"
| "repr (JList xs) = ''['' @ join '', '' (map repr xs) @ '']''"
| "repr (JDict kvs) =
     ''{'' @ join '', '' (map (\<lambda>kv. repr_str (fst kv) @ '': '' @ repr (snd kv)) kvs) @ ''}''"

text \<open>\<^verbatim>\<open>'{}'.format(v)\<close>, that is \<^verbatim>\<open>str(v)\<close>: a string as it is, anything else as its \<^verbatim>\<open>repr\<close>.\<close>

definition str :: "json \<Rightarrow> string" where
  "str v = (case v of JStr s \<Rightarrow> s | _ \<Rightarrow> repr v)"

section \<open>The collaborators of the endpoints\<close>

subsection \<open>Object identifiers\<close>

text \<open>
  A \<^verbatim>\<open>bson.objectid.ObjectId\<close>. An identifier that names a stored document is identified
  with its \<^verbatim>\<open>str()\<close> rendering; \<open>Generated\<close> is the identifier that \<^verbatim>\<open>ObjectId(None)\<close>
  makes up, which is new and so equal to the identifier of no stored document.
\<close>

datatype object_id = Oid string | Generated

subsection \<open>The Store\<close>

text \<open>
  Modelled from the spec: the entity classes of \<^verbatim>\<open>tesserae.db.entities\<close> are not part of
  the source. The spec's data model gives a status record a job id, a status string, a
  message string and an optional reference to a match set, a match set an id and its
  parameters, and a match a reference to its match set and a field mapping (what
  \<^verbatim>\<open>json_encode()\<close> returns). Only the fields that the endpoints touch are named; the
  rest of a text document is carried along as one value.
\<close>

record Text =
  text_id :: string
  text_doc :: json

record ResultsStatus =
  results_id :: string
  status :: string
  msg :: string
  match_set_id :: "string option"

record MatchSet =
  ms_id :: string
  parameters :: json

record Match =
  match_set :: string
  json_encode :: json

record store =
  Text_collection :: "Text list"
  ResultsStatus_collection :: "ResultsStatus list"
  MatchSet_collection :: "MatchSet list"
  Match_collection :: "Match list"

text \<open>
  Modelled from the spec: \<^verbatim>\<open>flask.g.db.find\<close> is the Store's lookup by field value, which
  is not part of the source. It returns, in the Store's order, the documents of a collection
  whose field equals the given value, or is one of the given values when a list is given.
\<close>

definition find_Text :: "store \<Rightarrow> object_id list \<Rightarrow> Text list" where
  "find_Text d ids = filter (\<lambda>t. Oid (text_id t) \<in> set ids) (Text_collection d)"

definition find_ResultsStatus :: "store \<Rightarrow> string \<Rightarrow> ResultsStatus list" where
  "find_ResultsStatus d rid = filter (\<lambda>s. results_id s = rid) (ResultsStatus_collection d)"

definition find_MatchSet :: "store \<Rightarrow> object_id \<Rightarrow> MatchSet list" where
  "find_MatchSet d i = filter (\<lambda>m. Oid (ms_id m) = i) (MatchSet_collection d)"

definition find_Match :: "store \<Rightarrow> object_id \<Rightarrow> Match list" where
  "find_Match d i = filter (\<lambda>m. Oid (match_set m) = i) (Match_collection d)"

subsection \<open>Responses\<close>

text \<open>
  The library transformations that produce a response body are kept symbolic:
  \<open>Dumps\<close> is \<^verbatim>\<open>flask.json.dumps\<close>, \<open>Encode\<close> is \<^verbatim>\<open>str.encode\<close> and \<open>GzipCompress\<close> is
  \<^verbatim>\<open>gzip.compress\<close>.
\<close>

datatype pytext = Lit string | Dumps json

datatype pybytes = Encode pytext | GzipCompress pybytes

datatype body = EmptyBody | TextBody pytext | BytesBody pybytes

record response =
  status_code :: nat
  body :: body
  mimetype :: "string option"
  headers :: "(string \<times> string) list"

text \<open>\<^verbatim>\<open>flask.jsonify(**kwargs)\<close>: a 200 response whose body is the serialised mapping.\<close>

definition jsonify :: "(string \<times> json) list \<Rightarrow> response" where
  "jsonify kwargs =
     \<lparr>status_code = 200, body = TextBody (Dumps (JDict kwargs)),
      mimetype = Some ''application/json'', headers = []\<rparr>"

text \<open>
  Modelled from the spec: \<^verbatim>\<open>apitess.errors.error\<close> is not part of the source. The spec gives
  its response: the status code, with the body \<^verbatim>\<open>{data: echoed request, message: ...}\<close>.
\<close>

definition error :: "nat \<Rightarrow> json \<Rightarrow> string \<Rightarrow> response" where
  "error code data_arg message =
     (jsonify [(''data'', data_arg), (''message'', JStr message)])\<lparr>status_code := code\<rparr>"

subsection \<open>The searcher and its queue\<close>

record search_params =
  texts :: "Text list"
  unit_type :: json
  feature :: json
  stopwords :: json
  frequency_basis :: json
  max_distance :: json
  distance_metric :: json

type_synonym job = "string \<times> json \<times> search_params"

record searcher =
  queue :: "job list"
  maxsize :: nat

text \<open>
  Modelled from the spec: \<^verbatim>\<open>flask.g.searcher.queue_search\<close> is not part of the source. The
  spec has it make one non-blocking attempt to put the job on the shared bounded queue:
  at capacity the attempt fails at once (\<^verbatim>\<open>queue.Full\<close>) and nothing is recorded.
\<close>

definition queue_search ::
  "searcher \<Rightarrow> string \<Rightarrow> json \<Rightarrow> search_params \<Rightarrow> (pyerror + unit) \<times> searcher" where
  "queue_search s rid search_type params =
     (if length (queue s) < maxsize s
      then (Inr (), s\<lparr>queue := queue s @ [(rid, search_type, params)]\<rparr>)
      else (Inl Full, s))"

subsection \<open>The environment of a request\<close>

text \<open>
  What a request handler reads from its surroundings:
  \<^item> \<open>db\<close>: the Store, \<^verbatim>\<open>flask.g.db\<close>;
  \<^item> \<open>parse_oid\<close>: what \<^verbatim>\<open>ObjectId\<close> makes of a string: the \<^verbatim>\<open>str()\<close> rendering of the
    identifier, or \<open>None\<close> when the library rejects the string with \<^verbatim>\<open>InvalidId\<close>;
  \<^item> \<open>iter_set\<close>: the order in which iterating over a set of strings yields its elements
    (it depends on the interpreter's string hashing);
  \<^item> \<open>uuid4\<close>: the 128 random bits that \<^verbatim>\<open>uuid.uuid4()\<close> draws;
  \<^item> \<open>apitess_error\<close>: what the attribute chain \<^verbatim>\<open>apitess.error.error\<close> resolves to. The
    module imports \<^verbatim>\<open>apitess.errors\<close> only, so the name is bound only if the package
    binds it elsewhere; \<open>None\<close> is the lookup failing with \<^verbatim>\<open>AttributeError\<close>.
\<close>

record env =
  db :: store
  parse_oid :: "string \<Rightarrow> string option"
  iter_set :: "string set \<Rightarrow> string list"
  uuid4 :: "128 word"
  apitess_error :: "(nat \<Rightarrow> json \<Rightarrow> string \<Rightarrow> response) option"

text \<open>
  \<^verbatim>\<open>ObjectId(v)\<close> on a value of the request: \<^verbatim>\<open>None\<close> generates a new identifier, a
  string is parsed, anything else is a \<^verbatim>\<open>TypeError\<close>.
\<close>

definition ObjectId :: "env \<Rightarrow> json \<Rightarrow> pyerror + object_id" where
  "ObjectId e v =
     (case v of
        JNull \<Rightarrow> Inr Generated
      | JStr s \<Rightarrow> (case parse_oid e s of None \<Rightarrow> Inl InvalidId | Some h \<Rightarrow> Inr (Oid h))
      | _ \<Rightarrow> Inl TypeError)"

text \<open>
  \<^verbatim>\<open>ObjectId(r)\<close> on the optional reference of a status record: an identifier is
  copied, \<^verbatim>\<open>None\<close> generates a new one.
\<close>

definition ObjectId_ref :: "string option \<Rightarrow> object_id" where
  "ObjectId_ref r = (case r of None \<Rightarrow> Generated | Some h \<Rightarrow> Oid h)"

text \<open>\<^verbatim>\<open>uuid.uuid4().hex\<close>: the 128 bits as 32 lowercase hexadecimal digits.\<close>

definition uuid_hex :: "128 word \<Rightarrow> string" where
  "uuid_hex w = map (\<lambda>i. hexdigit (unat (drop_bit (4 * i) w AND 15))) (rev [0..<32])"

text \<open>\<^verbatim>\<open>os.path.join(a, *p)\<close> on a POSIX system.\<close>

definition path_join_step :: "string \<Rightarrow> string \<Rightarrow> string" where
  "path_join_step path b =
     (if take 1 b = ''/'' then b
      else if path = [] \<or> last path = CHR ''/'' then path @ b
      else path @ ''/'' @ b)"

definition os_path_join :: "string \<Rightarrow> string list \<Rightarrow> string" where
  "os_path_join a p = foldl path_join_step a p"

section \<open>The endpoints\<close>

subsection \<open>The helper \<^verbatim>\<open>_validate_units\<close>\<close>

definition validate_units :: "json \<Rightarrow> string \<Rightarrow> pyerror + string list" where
  "validate_units specs name =
     bnd (py_in ''object_id'' specs) (\<lambda>has_object_id.
     let result = (if \<not> has_object_id then [name @ '' is missing object_id.''] else []) in
     bnd (py_in ''units'' specs) (\<lambda>has_units.
     if \<not> has_units then Inr (result @ [name @ '' is missing units.''])
     else
       bnd (getitem specs ''units'') (\<lambda>units.
       if units \<noteq> JStr ''line'' \<and> units \<noteq> JStr ''phrase''
       then Inr (result @ [name @ '' has unrecognized units: '' @ str units])
       else Inr result)))"

subsection \<open>The handler \<^verbatim>\<open>submit_search\<close>\<close>

definition url_prefix :: string where
  "url_prefix = ''/parallels''"

definition requireds :: "string set" where
  "requireds = {''source'', ''target'', ''method''}"

text \<open>The registry \<^verbatim>\<open>method_requireds\<close>, a dict from method names to sets of keys.\<close>

definition method_requireds :: "string \<rightharpoonup> string set" where
  "method_requireds =
     [''original'' \<mapsto>
        {''name'', ''feature'', ''stopwords'', ''freq_basis'', ''max_distance'',
         ''distance_basis''}]"

text \<open>
  \<^verbatim>\<open>method_requireds[v]\<close> for a value of the request: a list or a dict is not hashable
  (\<^verbatim>\<open>TypeError\<close>), any other value that is not a key is a \<^verbatim>\<open>KeyError\<close>.
\<close>

definition method_requireds_getitem :: "json \<Rightarrow> pyerror + string set" where
  "method_requireds_getitem v =
     (case v of
        JStr n \<Rightarrow> (case method_requireds n of None \<Rightarrow> Inl KeyError | Some reqs \<Rightarrow> Inr reqs)
      | JList xs \<Rightarrow> Inl TypeError
      | JDict kvs \<Rightarrow> Inl TypeError
      | _ \<Rightarrow> Inl KeyError)"

text \<open>
  The two loops \<^verbatim>\<open>for req in ...: if req not in d: missing.append(req)\<close>, over the
  elements in the order the iteration yields them.
\<close>

fun missing_keys :: "string list \<Rightarrow> json \<Rightarrow> pyerror + string list" where
  "missing_keys [] d = Inr []"
| "missing_keys (req # reqs) d =
     bnd (py_in req d) (\<lambda>present.
     bnd (missing_keys reqs d) (\<lambda>rest.
     Inr (if present then rest else req # rest)))"

text \<open>
  The dict \<^verbatim>\<open>{str(t.id): t for t in results}\<close> (a later document replaces an earlier one
  under the same key), \<^verbatim>\<open>v not in results\<close> and \<^verbatim>\<open>results[v]\<close> for a value of the request:
  the keys are strings, so a value that is not a string is no key, and a list or a
  dict is not hashable.
\<close>

definition results_dict :: "Text list \<Rightarrow> (string \<rightharpoonup> Text)" where
  "results_dict found = map_of (rev (map (\<lambda>t. (text_id t, t)) found))"

definition not_in_results :: "json \<Rightarrow> (string \<rightharpoonup> Text) \<Rightarrow> pyerror + bool" where
  "not_in_results v results =
     (case v of
        JStr s \<Rightarrow> Inr (results s = None)
      | JList xs \<Rightarrow> Inl TypeError
      | JDict kvs \<Rightarrow> Inl TypeError
      | _ \<Rightarrow> Inr True)"

definition results_getitem :: "(string \<rightharpoonup> Text) \<Rightarrow> json \<Rightarrow> pyerror + Text" where
  "results_getitem results v =
     (case v of
        JStr s \<Rightarrow> (case results s of None \<Rightarrow> Inl KeyError | Some t \<Rightarrow> Inr t)
      | JList xs \<Rightarrow> Inl TypeError
      | JDict kvs \<Rightarrow> Inl TypeError
      | _ \<Rightarrow> Inl KeyError)"

text \<open>
  The validation part of \<^verbatim>\<open>submit_search\<close>, up to the last early return: it raises, or
  returns an error response (\<open>Inl\<close>), or goes on with the two texts and the method (\<open>Inr\<close>).
\<close>

definition submit_search_validate ::
  "env \<Rightarrow> json \<Rightarrow> pyerror + (response + Text \<times> Text \<times> json)" where
  "submit_search_validate e received =
     bnd (missing_keys (iter_set e requireds) received) (\<lambda>missing.
     if missing \<noteq> [] then
       Inr (Inl (error 400 received
         (''The request data payload is missing the following required key(s): ''
          @ join '', '' missing)))
     else
     bnd (getitem received ''source'') (\<lambda>source.
     bnd (getitem received ''target'') (\<lambda>target.
     bnd (validate_units source ''source'') (\<lambda>source_errors.
     bnd (validate_units target ''target'') (\<lambda>target_errors.
     let errors = source_errors @ target_errors in
     if errors \<noteq> [] then
       Inr (Inl (error 400 received
         (''The following errors were found in source and target unit specifications:''
          @ [CHR 0x0A] @ join [CHR 0x0A, CHR 0x09] errors)))
     else
     bnd (getitem source ''object_id'') (\<lambda>source_object_id.
     bnd (getitem target ''object_id'') (\<lambda>target_object_id.
     bnd (ObjectId e source_object_id) (\<lambda>source_oid.
     bnd (ObjectId e target_object_id) (\<lambda>target_oid.
     let results = results_dict (find_Text (db e) [source_oid, target_oid]) in
     bnd (not_in_results source_object_id results) (\<lambda>source_unknown.
     bnd (not_in_results target_object_id results) (\<lambda>target_unknown.
     let errors = (if source_unknown then [source_object_id] else [])
                @ (if target_unknown then [target_object_id] else []) in
     if errors \<noteq> [] then
       bnd (join_values [CHR 0x0A, CHR 0x09] errors) (\<lambda>joined.
       Inr (Inl (error 400 received
         (''Unable to find the following object_id(s) among the texts in the database:''
          @ [CHR 0x0A, CHR 0x09] @ joined))))
     else
     bnd (results_getitem results source_object_id) (\<lambda>source_text.
     bnd (results_getitem results target_object_id) (\<lambda>target_text.
     bnd (getitem received ''method'') (\<lambda>method.
     bnd (py_in ''name'' method) (\<lambda>has_name.
     if \<not> has_name then
       Inr (Inl (error 400 received ''No specified method name.''))
     else
     bnd (getitem method ''name'') (\<lambda>name.
     bnd (method_requireds_getitem name) (\<lambda>reqs.
     bnd (missing_keys (iter_set e reqs) method) (\<lambda>missing.
     if missing \<noteq> [] then
       Inr (Inl (error 400 received
         (''The specified method is missing the following required key(s): ''
          @ join '', '' missing)))
     else Inr (Inr (source_text, target_text, method))))))))))))))))))))"

text \<open>
  The arguments of \<^verbatim>\<open>queue_search\<close>, evaluated from left to right: the method name and
  the parameters for the Worker.
\<close>

definition queue_search_args ::
  "json \<Rightarrow> Text \<Rightarrow> Text \<Rightarrow> json \<Rightarrow> pyerror + json \<times> search_params" where
  "queue_search_args received source_text target_text method =
     bnd (getitem method ''name'') (\<lambda>name.
     bnd (getitem received ''source'') (\<lambda>source.
     bnd (getitem source ''units'') (\<lambda>units.
     bnd (getitem method ''feature'') (\<lambda>feature_val.
     bnd (getitem method ''stopwords'') (\<lambda>stopwords_val.
     bnd (getitem method ''freq_basis'') (\<lambda>freq_basis.
     bnd (getitem method ''max_distance'') (\<lambda>max_distance_val.
     bnd (getitem method ''distance_basis'') (\<lambda>distance_basis.
     Inr (name,
       \<lparr>texts = [source_text, target_text], unit_type = units, feature = feature_val,
        stopwords = stopwords_val, frequency_basis = freq_basis,
        max_distance = max_distance_val, distance_metric = distance_basis\<rparr>)))))))))"

text \<open>
  The whole handler. It returns what the handler returns or raises, and the searcher
  afterwards. After validation it builds the 201 response, draws the identifier, and
  tries to queue the job; \<^verbatim>\<open>queue.Full\<close> is caught and answered with
  \<^verbatim>\<open>apitess.error.error(500, ...)\<close>.
\<close>

definition submit_search :: "env \<Rightarrow> searcher \<Rightarrow> json \<Rightarrow> (pyerror + response) \<times> searcher" where
  "submit_search e s received =
     (case submit_search_validate e received of
        Inl err \<Rightarrow> (Inl err, s)
      | Inr (Inl resp) \<Rightarrow> (Inr resp, s)
      | Inr (Inr (source_text, target_text, method)) \<Rightarrow>
          (let results_id = uuid_hex (uuid4 e);
               response = \<lparr>status_code = 201, body = EmptyBody, mimetype = None,
                 headers = [(''Location'', os_path_join url_prefix [results_id, []])]\<rparr>
           in case queue_search_args received source_text target_text method of
                Inl err \<Rightarrow> (Inl err, s)
              | Inr (name, params) \<Rightarrow>
                  (case queue_search s results_id name params of
                     (Inr u, s') \<Rightarrow> (Inr response, s')
                   | (Inl Full, s') \<Rightarrow>
                       (case apitess_error e of
                          None \<Rightarrow> (Inl AttributeError, s')
                        | Some error_fn \<Rightarrow>
                            (Inr (error_fn 500 received
                               (''The search request could not be added to the queue. ''
                                @ ''Please try again in a few minutes'')), s'))
                   | (Inl err, s') \<Rightarrow> (Inl err, s'))))"

subsection \<open>The handler \<^verbatim>\<open>retrieve_status\<close>\<close>

text \<open>\<^verbatim>\<open>flask.Response(message)\<close> with its status code set to 404.\<close>

definition not_found :: "string \<Rightarrow> response" where
  "not_found message =
     \<lparr>status_code = 404, body = TextBody (Lit message), mimetype = None, headers = []\<rparr>"

definition retrieve_status :: "env \<Rightarrow> string \<Rightarrow> response" where
  "retrieve_status e rid =
     (case find_ResultsStatus (db e) rid of
        [] \<Rightarrow> not_found ''Could not find results_id''
      | st # rest \<Rightarrow>
          jsonify [(''results_id'', JStr (results_id st)), (''status'', JStr (status st)),
                   (''message'', JStr (msg st))])"

subsection \<open>The handler \<^verbatim>\<open>retrieve_results\<close>\<close>

definition retrieve_results :: "env \<Rightarrow> string \<Rightarrow> response" where
  "retrieve_results e rid =
     (case find_ResultsStatus (db e) rid of
        [] \<Rightarrow> not_found ''Could not find results_id''
      | st # rest \<Rightarrow>
          (case find_MatchSet (db e) (ObjectId_ref (match_set_id st)) of
             [] \<Rightarrow> not_found ''Could not find MatchSet''
           | ms # rest' \<Rightarrow>
               (let params = parameters ms;
                    matches = map json_encode (find_Match (db e) (Oid (ms_id ms)))
                in \<lparr>status_code = 200,
                    body = BytesBody (GzipCompress (Encode (Dumps
                      (JDict [(''data'', params), (''parallels'', JList matches)])))),
                    mimetype = Some ''application/json'',
                    headers = [(''Content-Encoding'', ''gzip'')]\<rparr>)))"

section \<open>Notions used to state the properties\<close>

text \<open>
  Iterating over a set yields the elements of the set, whatever the order: this is asked
  of the environment for the sets that \<^verbatim>\<open>submit_search\<close> iterates over.
\<close>

definition iter_set_ok :: "env \<Rightarrow> bool" where
  "iter_set_ok e =
     (set (iter_set e requireds) = requireds
      \<and> (\<forall>reqs \<in> ran method_requireds. set (iter_set e reqs) = reqs))"

text \<open>
  What a client reads from a response. The bytes on the wire are the body, a text body
  encoded. The client undoes the content coding that the \<^verbatim>\<open>Content-Encoding\<close> header
  names (none when the header is absent; \<^verbatim>\<open>gzip\<close> is the only coding it knows), decodes
  the bytes and parses the text. Its three functions are parameters: all that is asked
  of them is that they invert the library functions that the handlers apply, which is
  the contract of \<^verbatim>\<open>gzip\<close>, of the text encoding and of the JSON reader. Nothing is said
  of what they make of any other bytes or text.
\<close>

record reader =
  gunzip :: "pybytes \<Rightarrow> pybytes option"
  decode_bytes :: "pybytes \<Rightarrow> pytext option"
  json_loads :: "pytext \<Rightarrow> json option"

definition inverts_library :: "reader \<Rightarrow> bool" where
  "inverts_library c =
     ((\<forall>b. gunzip c (GzipCompress b) = Some b)
      \<and> (\<forall>t. decode_bytes c (Encode t) = Some t)
      \<and> (\<forall>j. json_loads c (Dumps j) = Some j))"

definition wire_bytes :: "response \<Rightarrow> pybytes option" where
  "wire_bytes r =
     (case body r of
        EmptyBody \<Rightarrow> None
      | TextBody t \<Rightarrow> Some (Encode t)
      | BytesBody b \<Rightarrow> Some b)"

definition content_decoded :: "reader \<Rightarrow> response \<Rightarrow> pybytes option" where
  "content_decoded c r =
     Option.bind (wire_bytes r) (\<lambda>b.
       case map_of (headers r) ''Content-Encoding'' of
         None \<Rightarrow> Some b
       | Some coding \<Rightarrow> if coding = ''gzip'' then gunzip c b else None)"

definition client_json :: "reader \<Rightarrow> response \<Rightarrow> json option" where
  "client_json c r =
     Option.bind (content_decoded c r) (\<lambda>b.
     Option.bind (decode_bytes c b) (json_loads c))"

text \<open>
  The identifiers of the stored texts, as strings, and the identifiers that the handler
  lists as not found, given what \<^verbatim>\<open>ObjectId\<close> made of the two strings of the request:
  an identifier is listed unless a text that the lookup found renders to it.
\<close>

definition stored_ids :: "env \<Rightarrow> string set" where
  "stored_ids e = text_id ` set (Text_collection (db e))"

definition listed_ids :: "env \<Rightarrow> string \<Rightarrow> string \<Rightarrow> string \<Rightarrow> string \<Rightarrow> string list" where
  "listed_ids e sid tid hs ht =
     filter (\<lambda>i. \<not> ((i = hs \<or> i = ht) \<and> i \<in> stored_ids e)) [sid, tid]"

text \<open>
  The validation rules of the spec, read on a payload. Rule 1: the payload contains
  \<^verbatim>\<open>source\<close>, \<^verbatim>\<open>target\<close> and \<^verbatim>\<open>method\<close>. Rule 2: source and target each contain
  \<^verbatim>\<open>object_id\<close> and \<^verbatim>\<open>units\<close>, and the units are \<^verbatim>\<open>line\<close> or \<^verbatim>\<open>phrase\<close>. Rule 3: both
  \<^verbatim>\<open>object_id\<close> values are identifiers of stored texts. Rule 4: the method contains
  \<^verbatim>\<open>name\<close>. Rule 5: the name is registered and the method contains every key that the
  registry requires for it. A value that is not a dict contains nothing.
\<close>

definition lookup :: "json \<Rightarrow> string \<Rightarrow> json option" where
  "lookup d k = (case d of JDict kvs \<Rightarrow> map_of kvs k | _ \<Rightarrow> None)"

definition units_ok :: "json \<Rightarrow> bool" where
  "units_ok spec =
     (lookup spec ''object_id'' \<noteq> None
      \<and> (lookup spec ''units'' = Some (JStr ''line'')
           \<or> lookup spec ''units'' = Some (JStr ''phrase'')))"

definition resolves :: "env \<Rightarrow> json \<Rightarrow> bool" where
  "resolves e spec =
     (case lookup spec ''object_id'' of
        Some (JStr i) \<Rightarrow> i \<in> stored_ids e
      | _ \<Rightarrow> False)"

definition method_ok :: "json \<Rightarrow> bool" where
  "method_ok m =
     (case lookup m ''name'' of
        Some (JStr n) \<Rightarrow>
          (case method_requireds n of
             None \<Rightarrow> False
           | Some reqs \<Rightarrow> \<forall>k \<in> reqs. lookup m k \<noteq> None)
      | _ \<Rightarrow> False)"

definition meets_rules :: "env \<Rightarrow> json \<Rightarrow> bool" where
  "meets_rules e p =
     (case lookup p ''source'' of
        None \<Rightarrow> False
      | Some source \<Rightarrow>
          (case lookup p ''target'' of
             None \<Rightarrow> False
           | Some target \<Rightarrow>
               (case lookup p ''method'' of
                  None \<Rightarrow> False
                | Some m \<Rightarrow>
                    units_ok source \<and> units_ok target
                    \<and> resolves e source \<and> resolves e target \<and> method_ok m)))"

text \<open>
  The payloads that the handler is written for: the payload is a dict, and so are its
  source, target and method when present; an \<^verbatim>\<open>object_id\<close>, when present, is a string
  that \<^verbatim>\<open>ObjectId\<close> accepts; a method name, when present, is a name of the registry.
\<close>

definition is_dict :: "json \<Rightarrow> bool" where
  "is_dict v = (case v of JDict kvs \<Rightarrow> True | _ \<Rightarrow> False)"

definition accepted_id :: "env \<Rightarrow> json \<Rightarrow> bool" where
  "accepted_id e spec =
     (case lookup spec ''object_id'' of
        None \<Rightarrow> True
      | Some (JStr i) \<Rightarrow> parse_oid e i \<noteq> None
      | Some v \<Rightarrow> False)"

definition registered_name :: "json \<Rightarrow> bool" where
  "registered_name m =
     (case lookup m ''name'' of
        None \<Rightarrow> True
      | Some (JStr n) \<Rightarrow> method_requireds n \<noteq> None
      | Some v \<Rightarrow> False)"

definition well_typed :: "env \<Rightarrow> json \<Rightarrow> bool" where
  "well_typed e p =
     (is_dict p
      \<and> (case lookup p ''source'' of None \<Rightarrow> True
          | Some source \<Rightarrow> is_dict source \<and> accepted_id e source)
      \<and> (case lookup p ''target'' of None \<Rightarrow> True
          | Some target \<Rightarrow> is_dict target \<and> accepted_id e target)
      \<and> (case lookup p ''method'' of None \<Rightarrow> True
          | Some m \<Rightarrow> is_dict m \<and> registered_name m))"

text \<open>
  The rule of the spec for a unit specification, read on a dict: it must contain
  \<^verbatim>\<open>object_id\<close>; it must contain \<^verbatim>\<open>units\<close>; if present, \<^verbatim>\<open>units\<close> must be \<^verbatim>\<open>line\<close> or
  \<^verbatim>\<open>phrase\<close>, else the side and the unrecognized value are reported. Every violation
  gives one message.
\<close>

definition spec_unit_errors :: "(string \<times> json) list \<Rightarrow> string \<Rightarrow> string list" where
  "spec_unit_errors kvs name =
     (if map_of kvs ''object_id'' = None then [name @ '' is missing object_id.''] else [])
     @ (case map_of kvs ''units'' of
          None \<Rightarrow> [name @ '' is missing units.'']
        | Some u \<Rightarrow>
            if u = JStr ''line'' \<or> u = JStr ''phrase'' then []
            else [name @ '' has unrecognized units: '' @ str u])"

text \<open>
  The payload \<open>p\<close> with the value under \<^verbatim>\<open>units\<close> of its \<^verbatim>\<open>target\<close> replaced by \<open>u\<close>, and
  nothing else changed.
\<close>

definition update_item :: "string \<Rightarrow> (json \<Rightarrow> json) \<Rightarrow> json \<Rightarrow> json" where
  "update_item k f d =
     (case d of
        JDict kvs \<Rightarrow> JDict (map (\<lambda>kv. if fst kv = k then (k, f (snd kv)) else kv) kvs)
      | _ \<Rightarrow> d)"

definition with_target_units :: "json \<Rightarrow> json \<Rightarrow> json" where
  "with_target_units p u = update_item ''target'' (update_item ''units'' (\<lambda>old. u)) p"

section \<open>An example deployment\<close>

text \<open>
  What the \<^verbatim>\<open>bson\<close> library makes of a string: a string of 24 characters is handed to
  \<^verbatim>\<open>bytes.fromhex\<close>, which reads two hexadecimal digits per byte and skips ASCII
  whitespace before a byte and at the end; the identifier renders back as the lower-case
  hexadecimal digits of its bytes. Any other string is rejected.
\<close>

definition lower_hex :: "char \<Rightarrow> char" where
  "lower_hex c = (case map_of (zip ''ABCDEF'' ''abcdef'') c of None \<Rightarrow> c | Some l \<Rightarrow> l)"

definition is_hex :: "char \<Rightarrow> bool" where
  "is_hex c = (c \<in> set ''0123456789abcdefABCDEF'')"

definition is_space :: "char \<Rightarrow> bool" where
  "is_space c = (c \<in> {CHR 0x20, CHR 0x09, CHR 0x0A, CHR 0x0B, CHR 0x0C, CHR 0x0D})"

fun fromhex :: "string \<Rightarrow> string option" where
  "fromhex [] = Some []"
| "fromhex [c] = (if is_space c then Some [] else None)"
| "fromhex (c # d # cs) =
     (if is_space c then fromhex (d # cs)
      else if is_hex c \<and> is_hex d
           then map_option (\<lambda>rest. lower_hex c # lower_hex d # rest) (fromhex cs)
           else None)"

definition hex24 :: "string \<Rightarrow> string option" where
  "hex24 s = (if length s = 24 then fromhex s else None)"

text \<open>
  A reader that inverts the symbolic library functions and fails on everything else.
\<close>

fun gzip_decompress :: "pybytes \<Rightarrow> pybytes option" where
  "gzip_decompress (GzipCompress b) = Some b"
| "gzip_decompress (Encode t) = None"

fun decode :: "pybytes \<Rightarrow> pytext option" where
  "decode (Encode t) = Some t"
| "decode (GzipCompress b) = None"

fun loads :: "pytext \<Rightarrow> json option" where
  "loads (Dumps j) = Some j"
| "loads (Lit s) = None"

definition symbolic_reader :: reader where
  "symbolic_reader = \<lparr>gunzip = gzip_decompress, decode_bytes = decode, json_loads = loads\<rparr>"

text \<open>An iteration order: the elements in the order in which the source writes them.\<close>

definition literal_order :: "string set \<Rightarrow> string list" where
  "literal_order S =
     filter (\<lambda>k. k \<in> S)
       [''source'', ''target'', ''method'', ''name'', ''feature'', ''stopwords'',
        ''freq_basis'', ''max_distance'', ''distance_basis'']"

definition aeneid_id :: string where
  "aeneid_id = ''5c6c69f042facf59122418f6''"

definition pharsalia_id :: string where
  "pharsalia_id = ''5c6c69f042facf59122418f8''"

definition aeneid :: Text where
  "aeneid = \<lparr>text_id = aeneid_id, text_doc = JDict [(''title'', JStr ''aeneid'')]\<rparr>"

definition pharsalia :: Text where
  "pharsalia = \<lparr>text_id = pharsalia_id, text_doc = JDict [(''title'', JStr ''pharsalia'')]\<rparr>"

definition finished_match_set :: string where
  "finished_match_set = ''5d1f3a0b9e2c4d0001a7b001''"

definition ex_store :: store where
  "ex_store =
     \<lparr>Text_collection = [aeneid, pharsalia],
      ResultsStatus_collection =
        [\<lparr>results_id = ''job-done'', status = ''Done'', msg = ''Done in 3.2 seconds'',
          match_set_id = Some finished_match_set\<rparr>,
         \<lparr>results_id = ''job-running'', status = ''Running'', msg = ''Started'',
          match_set_id = None\<rparr>,
         \<lparr>results_id = ''job-lost'', status = ''Done'', msg = ''Done'',
          match_set_id = Some ''5d1f3a0b9e2c4d0001a7b999''\<rparr>],
      MatchSet_collection =
        [\<lparr>ms_id = finished_match_set, parameters = JDict [(''feature'', JStr ''lemma'')]\<rparr>],
      Match_collection =
        [\<lparr>match_set = finished_match_set, json_encode = JDict [(''score'', JInt 9)]\<rparr>,
         \<lparr>match_set = ''5d1f3a0b9e2c4d0001a7b002'', json_encode = JDict [(''score'', JInt 1)]\<rparr>,
         \<lparr>match_set = finished_match_set, json_encode = JDict [(''score'', JInt 7)]\<rparr>]\<rparr>"

definition ex_env :: env where
  "ex_env =
     \<lparr>db = ex_store, parse_oid = hex24, iter_set = literal_order,
      uuid4 = 0x9f1c2b3a4d5e6f708192a3b4c5d6e7f8, apitess_error = None\<rparr>"

definition idle_searcher :: searcher where
  "idle_searcher = \<lparr>queue = [], maxsize = 2\<rparr>"

definition ex_method :: json where
  "ex_method =
     JDict [(''name'', JStr ''original''), (''feature'', JStr ''lemma''),
            (''stopwords'', JList []), (''freq_basis'', JStr ''corpus''),
            (''max_distance'', JInt 10), (''distance_basis'', JStr ''frequency'')]"

definition unit_spec :: "string \<Rightarrow> string \<Rightarrow> json" where
  "unit_spec oid units = JDict [(''object_id'', JStr oid), (''units'', JStr units)]"

definition request :: "json \<Rightarrow> json \<Rightarrow> json \<Rightarrow> json" where
  "request source target method =
     JDict [(''source'', source), (''target'', target), (''method'', method)]"

definition ex_request :: json where
  "ex_request = request (unit_spec aeneid_id ''line'') (unit_spec pharsalia_id ''phrase'') ex_method"

definition ex_params :: search_params where
  "ex_params =
     \<lparr>texts = [aeneid, pharsalia], unit_type = JStr ''line'', feature = JStr ''lemma'',
      stopwords = JList [], frequency_basis = JStr ''corpus'', max_distance = JInt 10,
      distance_metric = JStr ''frequency''\<rparr>"

definition busy_searcher :: searcher where
  "busy_searcher =
     \<lparr>queue = [(''0123456789abcdef0123456789abcdef'', JStr ''original'', ex_params)],
      maxsize = 1\<rparr>"

text \<open>
  Further requests: one that names a method the registry does not hold, one with three
  faults at once (a unit that is neither \<^verbatim>\<open>line\<close> nor \<^verbatim>\<open>phrase\<close> on the source, a
  target that is no stored text, a method without its required keys), one whose
  identifiers are not identifiers of the Store's format, one whose source is a number,
  one with the key \<^verbatim>\<open>source\<close> only, and one whose target is no stored text.
\<close>

definition absent_id :: string where
  "absent_id = ''5c6c69f042facf59122418ff''"

definition unregistered_request :: json where
  "unregistered_request =
     request (unit_spec aeneid_id ''line'') (unit_spec pharsalia_id ''phrase'')
       (JDict [(''name'', JStr ''bigram''), (''feature'', JStr ''lemma''),
               (''stopwords'', JList []), (''freq_basis'', JStr ''corpus''),
               (''max_distance'', JInt 10), (''distance_basis'', JStr ''frequency'')])"

definition three_faults_request :: json where
  "three_faults_request =
     request (unit_spec aeneid_id ''word'') (unit_spec absent_id ''phrase'')
       (JDict [(''name'', JStr ''original'')])"

definition malformed_ids_request :: json where
  "malformed_ids_request = request (unit_spec ''A'' ''line'') (unit_spec ''B'' ''phrase'') ex_method"

definition number_source_request :: json where
  "number_source_request = request (JInt 5) (unit_spec pharsalia_id ''phrase'') ex_method"

definition source_only_request :: json where
  "source_only_request = JDict [(''source'', unit_spec aeneid_id ''line'')]"

definition unknown_target_request :: json where
  "unknown_target_request =
     request (unit_spec aeneid_id ''line'') (unit_spec absent_id ''phrase'') ex_method"

text \<open>
  Two more requests: one whose method has no name, and one whose method has its name
  and feature but none of the other required keys.
\<close>

definition nameless_request :: json where
  "nameless_request =
     request (unit_spec aeneid_id ''line'') (unit_spec pharsalia_id ''phrase'')
       (JDict [(''feature'', JStr ''lemma'')])"

definition bare_method_request :: json where
  "bare_method_request =
     request (unit_spec aeneid_id ''line'') (unit_spec pharsalia_id ''phrase'')
       (JDict [(''name'', JStr ''original''), (''feature'', JStr ''lemma'')])"

text \<open>
  A request whose source is the identifier of a stored text, written in upper case, and
  whose target is no stored text.
\<close>

definition upper_case_request :: json where
  "upper_case_request =
     request (unit_spec ''5C6C69F042FACF59122418F6'' ''line'') (unit_spec absent_id ''phrase'')
       ex_method"

section \<open>Auxiliary facts\<close>

subsection \<open>Raising and the Python operations\<close>

lemma bnd_Inl [simp]: "bnd (Inl err) f = Inl err"
  by (simp add: bnd_def)

lemma bnd_Inr [simp]: "bnd (Inr x) f = f x"
  by (simp add: bnd_def)

lemma bnd_eq_Inr: "(bnd m f = Inr y) = (\<exists>x. m = Inr x \<and> f x = Inr y)"
  by (cases m) simp_all

lemma getitem_Inr_D: "getitem d k = Inr v \<Longrightarrow> \<exists>kvs. d = JDict kvs \<and> map_of kvs k = Some v"
  by (cases d) (auto split: option.splits)

lemma py_in_dict_getitem: "py_in k (JDict kvs) = Inr True \<Longrightarrow> \<exists>v. getitem (JDict kvs) k = Inr v"
proof -
  assume "py_in k (JDict kvs) = Inr True"
  then have "k \<in> fst ` set kvs" by simp
  then obtain v where "map_of kvs k = Some v"
    by (metis map_of_eq_None_iff not_Some_eq)
  then show ?thesis by simp
qed

lemma missing_keys_Nil_D: "missing_keys ks d = Inr [] \<Longrightarrow> k \<in> set ks \<Longrightarrow> py_in k d = Inr True"
  by (induction ks) (auto simp: bnd_eq_Inr split: if_splits)

lemma validate_units_Nil_D:
  assumes "validate_units specs name = Inr []"
  shows "py_in ''object_id'' specs = Inr True \<and> py_in ''units'' specs = Inr True
    \<and> (getitem specs ''units'' = Inr (JStr ''line'') \<or> getitem specs ''units'' = Inr (JStr ''phrase''))"
  using assms by (auto simp: validate_units_def bnd_eq_Inr Let_def split: if_splits)

lemma not_in_results_False_D: "not_in_results v results = Inr False \<Longrightarrow> \<exists>s t. v = JStr s \<and> results s = Some t"
  by (cases v) (auto simp: not_in_results_def)

lemma method_requireds_getitem_D:
  "method_requireds_getitem v = Inr reqs \<Longrightarrow> \<exists>n. v = JStr n \<and> method_requireds n = Some reqs"
  by (cases v) (auto simp: method_requireds_getitem_def split: option.splits)

lemma method_requireds_Some_D:
  "method_requireds n = Some reqs \<Longrightarrow>
     n = ''original'' \<and> reqs = {''name'', ''feature'', ''stopwords'', ''freq_basis'', ''max_distance'', ''distance_basis''}"
  by (auto simp: method_requireds_def split: if_splits)

lemma queue_search_args_D:
  assumes "queue_search_args p source_text target_text m = Inr (name, params)"
  shows "\<exists>source. getitem p ''source'' = Inr source
    \<and> getitem source ''units'' = Inr (unit_type params)"
  using assms by (auto simp: queue_search_args_def bnd_eq_Inr)

lemma status_code_error: "status_code (error code d m) = code"
  by (simp add: error_def jsonify_def)

subsection \<open>Payloads changed under one key\<close>

lemma map_of_update:
  "map_of (map (\<lambda>kv. if fst kv = k' then (k', f (snd kv)) else kv) kvs) k
     = (if k = k' then map_option f (map_of kvs k) else map_of kvs k)"
  by (induction kvs) auto

lemma keys_update:
  "(k \<in> set (map fst (map (\<lambda>kv. if fst kv = k' then (k', f (snd kv)) else kv) kvs)))
     = (k \<in> set (map fst kvs))"
  by (induction kvs) auto

lemma py_in_update_item: "py_in k (update_item k' f d) = py_in k d"
proof (cases d)
  case (JDict kvs)
  with keys_update [of k k' f kvs] show ?thesis
    by (simp add: update_item_def)
qed (simp_all add: update_item_def)

lemma getitem_update_item_other: "k \<noteq> k' \<Longrightarrow> getitem (update_item k' f d) k = getitem d k"
  by (cases d) (simp_all add: update_item_def map_of_update)

lemma getitem_update_item_same: "getitem d k = Inr v \<Longrightarrow> getitem (update_item k f d) k = Inr (f v)"
  by (cases d) (auto simp: update_item_def map_of_update split: option.splits)

lemma missing_keys_update_item: "missing_keys ks (update_item k' f d) = missing_keys ks d"
  by (induction ks) (simp_all add: py_in_update_item)

lemma validate_units_update:
  assumes "validate_units t name = Inr []" and "u = JStr ''line'' \<or> u = JStr ''phrase''"
  shows "validate_units (update_item ''units'' (\<lambda>old. u) t) name = Inr []"
proof -
  from validate_units_Nil_D [OF assms(1)] obtain u0 where
    "py_in ''object_id'' t = Inr True" "py_in ''units'' t = Inr True"
    "getitem t ''units'' = Inr u0" by blast
  with assms(2) show ?thesis
    by (auto simp: validate_units_def py_in_update_item getitem_update_item_same)
qed

lemma queue_search_args_with_target_units:
  "queue_search_args (with_target_units p u) source_text target_text m
     = queue_search_args p source_text target_text m"
  by (simp add: queue_search_args_def with_target_units_def getitem_update_item_other)

subsection \<open>The texts that the Store finds\<close>

lemma set_find_Text: "set (find_Text d ids) = {t \<in> set (Text_collection d). Oid (text_id t) \<in> set ids}"
  by (auto simp: find_Text_def)

lemma results_dict_None:
  "(results_dict (find_Text d ids) k = None)
     = (\<not> (Oid k \<in> set ids \<and> k \<in> text_id ` set (Text_collection d)))"
  by (auto simp: results_dict_def map_of_eq_None_iff set_find_Text image_iff)

subsection \<open>What validation has established when it accepts\<close>

lemma validate_accepted_D:
  assumes "submit_search_validate e p = Inr (Inr (source_text, target_text, method))"
  shows "\<exists>source target sid tid hs ht name reqs.
      missing_keys (iter_set e requireds) p = Inr []
    \<and> getitem p ''source'' = Inr source \<and> getitem p ''target'' = Inr target
    \<and> validate_units source ''source'' = Inr [] \<and> validate_units target ''target'' = Inr []
    \<and> getitem source ''object_id'' = Inr (JStr sid) \<and> getitem target ''object_id'' = Inr (JStr tid)
    \<and> parse_oid e sid = Some hs \<and> parse_oid e tid = Some ht
    \<and> results_dict (find_Text (db e) [Oid hs, Oid ht]) sid = Some source_text
    \<and> results_dict (find_Text (db e) [Oid hs, Oid ht]) tid = Some target_text
    \<and> getitem p ''method'' = Inr method \<and> py_in ''name'' method = Inr True
    \<and> getitem method ''name'' = Inr (JStr name) \<and> method_requireds name = Some reqs
    \<and> missing_keys (iter_set e reqs) method = Inr []"
  using assms unfolding submit_search_validate_def
  apply (clarsimp simp: bnd_eq_Inr Let_def split: if_splits)
  apply (auto dest!: not_in_results_False_D method_requireds_getitem_D simp: ObjectId_def results_getitem_def split: option.splits)
  done

lemma validate_accepted_I:
  assumes "missing_keys (iter_set e requireds) p = Inr []"
    and "getitem p ''source'' = Inr source" and "getitem p ''target'' = Inr target"
    and "validate_units source ''source'' = Inr []"
    and "validate_units target ''target'' = Inr []"
    and "getitem source ''object_id'' = Inr (JStr sid)"
    and "getitem target ''object_id'' = Inr (JStr tid)"
    and "parse_oid e sid = Some hs" and "parse_oid e tid = Some ht"
    and "results_dict (find_Text (db e) [Oid hs, Oid ht]) sid = Some source_text"
    and "results_dict (find_Text (db e) [Oid hs, Oid ht]) tid = Some target_text"
    and "getitem p ''method'' = Inr m" and "py_in ''name'' m = Inr True"
    and "getitem m ''name'' = Inr (JStr name)" and "method_requireds name = Some reqs"
    and "missing_keys (iter_set e reqs) m = Inr []"
  shows "submit_search_validate e p = Inr (Inr (source_text, target_text, m))"
  using assms
  by (simp add: submit_search_validate_def ObjectId_def not_in_results_def
      results_getitem_def method_requireds_getitem_def)

lemma accepted_args:
  assumes ok: "iter_set_ok e"
    and acc: "submit_search_validate e p = Inr (Inr (source_text, target_text, method))"
  shows "\<exists>name params. queue_search_args p source_text target_text method = Inr (name, params)"
proof -
  from validate_accepted_D [OF acc] obtain source name reqs where
    src: "getitem p ''source'' = Inr source" and
    vs: "validate_units source ''source'' = Inr []" and
    nm: "getitem method ''name'' = Inr (JStr name)" and
    reg: "method_requireds name = Some reqs" and
    mk: "missing_keys (iter_set e reqs) method = Inr []"
    by blast
  from nm obtain kvs where m: "method = JDict kvs" by (blast dest: getitem_Inr_D)
  from reg have "reqs \<in> ran method_requireds" by (auto simp: ran_def)
  with ok have it: "set (iter_set e reqs) = reqs" by (simp add: iter_set_ok_def)
  from reg have reqs: "reqs = {''name'', ''feature'', ''stopwords'', ''freq_basis'', ''max_distance'', ''distance_basis''}"
    by (simp add: method_requireds_Some_D)
  have has: "\<exists>v. getitem method k = Inr v" if "k \<in> reqs" for k
  proof -
    from that it have "py_in k method = Inr True" by (intro missing_keys_Nil_D [OF mk]) simp
    then show ?thesis unfolding m by (rule py_in_dict_getitem)
  qed
  from has [of "''feature''"] obtain v1 where v1: "getitem method ''feature'' = Inr v1"
    by (auto simp: reqs)
  from has [of "''stopwords''"] obtain v2 where v2: "getitem method ''stopwords'' = Inr v2"
    by (auto simp: reqs)
  from has [of "''freq_basis''"] obtain v3 where v3: "getitem method ''freq_basis'' = Inr v3"
    by (auto simp: reqs)
  from has [of "''max_distance''"] obtain v4 where v4: "getitem method ''max_distance'' = Inr v4"
    by (auto simp: reqs)
  from has [of "''distance_basis''"] obtain v5 where v5: "getitem method ''distance_basis'' = Inr v5"
    by (auto simp: reqs)
  from validate_units_Nil_D [OF vs] obtain u where u: "getitem source ''units'' = Inr u"
    by blast
  show ?thesis
    by (simp add: queue_search_args_def nm src u v1 v2 v3 v4 v5)
qed

lemma validate_with_target_units:
  assumes acc: "submit_search_validate e p = Inr (Inr accepted)"
    and u: "u = JStr ''line'' \<or> u = JStr ''phrase''"
  shows "submit_search_validate (e\<lparr>uuid4 := w\<rparr>) (with_target_units p u) = Inr (Inr accepted)"
proof -
  obtain source_text target_text m where a: "accepted = (source_text, target_text, m)"
    by (cases accepted) auto
  from validate_accepted_D [OF acc [unfolded a]]
  obtain source target sid tid hs ht name reqs where f:
    "missing_keys (iter_set e requireds) p = Inr []"
    "getitem p ''source'' = Inr source" "getitem p ''target'' = Inr target"
    "validate_units source ''source'' = Inr []" "validate_units target ''target'' = Inr []"
    "getitem source ''object_id'' = Inr (JStr sid)" "getitem target ''object_id'' = Inr (JStr tid)"
    "parse_oid e sid = Some hs" "parse_oid e tid = Some ht"
    "results_dict (find_Text (db e) [Oid hs, Oid ht]) sid = Some source_text"
    "results_dict (find_Text (db e) [Oid hs, Oid ht]) tid = Some target_text"
    "getitem p ''method'' = Inr m" "py_in ''name'' m = Inr True"
    "getitem m ''name'' = Inr (JStr name)" "method_requireds name = Some reqs"
    "missing_keys (iter_set e reqs) m = Inr []"
    by blast
  let ?e = "e\<lparr>uuid4 := w\<rparr>" and ?p = "with_target_units p u"
  let ?target = "update_item ''units'' (\<lambda>old. u) target"
  have "submit_search_validate ?e ?p = Inr (Inr (source_text, target_text, m))"
  proof (rule validate_accepted_I)
    show "missing_keys (iter_set ?e requireds) ?p = Inr []"
      using f(1) by (simp add: with_target_units_def missing_keys_update_item)
    show "getitem ?p ''source'' = Inr source"
      using f(2) by (simp add: with_target_units_def getitem_update_item_other)
    show "getitem ?p ''target'' = Inr ?target"
      using f(3) by (simp add: with_target_units_def getitem_update_item_same)
    show "validate_units source ''source'' = Inr []" by (rule f(4))
    show "validate_units ?target ''target'' = Inr []"
      using f(5) u by (rule validate_units_update)
    show "getitem source ''object_id'' = Inr (JStr sid)" by (rule f(6))
    show "getitem ?target ''object_id'' = Inr (JStr tid)"
      using f(7) by (simp add: getitem_update_item_other)
    show "parse_oid ?e sid = Some hs" "parse_oid ?e tid = Some ht"
      using f(8,9) by simp_all
    show "results_dict (find_Text (db ?e) [Oid hs, Oid ht]) sid = Some source_text"
      "results_dict (find_Text (db ?e) [Oid hs, Oid ht]) tid = Some target_text"
      using f(10,11) by simp_all
    show "getitem ?p ''method'' = Inr m"
      using f(12) by (simp add: with_target_units_def getitem_update_item_other)
    show "py_in ''name'' m = Inr True" by (rule f(13))
    show "getitem m ''name'' = Inr (JStr name)" by (rule f(14))
    show "method_requireds name = Some reqs" by (rule f(15))
    show "missing_keys (iter_set ?e reqs) m = Inr []"
      using f(16) by simp
  qed
  with a show ?thesis by simp
qed

subsection \<open>Every response of validation is a 400\<close>

lemma bnd_400:
  "(\<And>x. \<forall>r. f x = Inr (Inl r) \<longrightarrow> status_code r = 400)
   \<Longrightarrow> \<forall>r. bnd m f = Inr (Inl r) \<longrightarrow> status_code r = 400"
  by (cases m) simp_all

lemma if_400:
  "\<forall>r. a = Inr (Inl r) \<longrightarrow> status_code r = 400
   \<Longrightarrow> \<forall>r. b = Inr (Inl r) \<longrightarrow> status_code r = 400
   \<Longrightarrow> \<forall>r. (if c then a else b) = Inr (Inl r) \<longrightarrow> status_code r = (400::nat)"
  by simp

lemma error_400: "\<forall>r. Inr (Inl (error 400 d m)) = Inr (Inl r) \<longrightarrow> status_code r = 400"
  by (auto simp: status_code_error)

lemma accepted_400: "\<forall>r. Inr (Inr v) = Inr (Inl r) \<longrightarrow> status_code r = 400"
  by simp

lemma validate_response_400:
  assumes "submit_search_validate e p = Inr (Inl r)"
  shows "status_code r = 400"
proof -
  have "\<forall>r. submit_search_validate e p = Inr (Inl r) \<longrightarrow> status_code r = 400"
    unfolding submit_search_validate_def Let_def
    by (intro bnd_400 if_400 error_400 accepted_400)
  with assms show ?thesis by blast
qed

subsection \<open>The outcomes of the handler\<close>

lemma submit_search_outcome:
  "snd (submit_search e s p) = s
   \<or> (\<exists>name params source_text target_text m.
         queue_search_args p source_text target_text m = Inr (name, params)
         \<and> fst (submit_search e s p) =
           Inr \<lparr>status_code = 201, body = EmptyBody, mimetype = None,
              headers = [(''Location'', os_path_join url_prefix [uuid_hex (uuid4 e), []])]\<rparr>
         \<and> snd (submit_search e s p) =
             s\<lparr>queue := queue s @ [(uuid_hex (uuid4 e), name, params)]\<rparr>)"
proof (cases "submit_search_validate e p")
  case (Inl err)
  then show ?thesis by (simp add: submit_search_def)
next
  case validated: (Inr v)
  show ?thesis
  proof (cases v)
    case (Inl r)
    with validated show ?thesis by (simp add: submit_search_def)
  next
    case (Inr accepted)
    obtain source_text target_text m where acc: "accepted = (source_text, target_text, m)"
      by (cases accepted) auto
    show ?thesis
    proof (cases "queue_search_args p source_text target_text m")
      case (Inl err)
      with validated Inr acc show ?thesis by (simp add: submit_search_def)
    next
      case args: (Inr a)
      obtain name params where a: "a = (name, params)" by (cases a) auto
      show ?thesis
      proof (cases "length (queue s) < maxsize s")
        case True
        with validated Inr acc args a have
          "fst (submit_search e s p) =
             Inr \<lparr>status_code = 201, body = EmptyBody, mimetype = None,
               headers = [(''Location'', os_path_join url_prefix [uuid_hex (uuid4 e), []])]\<rparr>"
          "snd (submit_search e s p) =
             s\<lparr>queue := queue s @ [(uuid_hex (uuid4 e), name, params)]\<rparr>"
          by (simp_all add: submit_search_def queue_search_def Let_def)
        with args a show ?thesis by blast
      next
        case False
        with validated Inr acc args a show ?thesis
          by (simp add: submit_search_def queue_search_def Let_def split: option.splits)
      qed
    qed
  qed
qed

subsection \<open>The first two stages of validation\<close>

lemma missing_keys_dict:
  "missing_keys ks (JDict kvs) = Inr (filter (\<lambda>k. k \<notin> fst ` set kvs) ks)"
  by (induction ks) simp_all

lemma key_in_dict: "(k \<in> fst ` set kvs) = (map_of kvs k \<noteq> None)"
  by (simp add: map_of_eq_None_iff)

lemma validate_units_dict: "validate_units (JDict kvs) name = Inr (spec_unit_errors kvs name)"
  by (auto simp: validate_units_def spec_unit_errors_def key_in_dict split: option.splits)

lemma submit_search_stage_responses:
  "(\<forall>missing. missing_keys (iter_set e requireds) p = Inr missing \<and> missing \<noteq> []
        \<longrightarrow> submit_search e s p =
            (Inr (error 400 p
               (''The request data payload is missing the following required key(s): ''
                @ join '', '' missing)), s))
   \<and> (\<forall>source target source_errors target_errors.
         missing_keys (iter_set e requireds) p = Inr []
         \<and> getitem p ''source'' = Inr source \<and> getitem p ''target'' = Inr target
         \<and> validate_units source ''source'' = Inr source_errors
         \<and> validate_units target ''target'' = Inr target_errors
         \<and> source_errors @ target_errors \<noteq> []
        \<longrightarrow> submit_search e s p =
            (Inr (error 400 p
               (''The following errors were found in source and target unit specifications:''
                @ [CHR 0x0A] @ join [CHR 0x0A, CHR 0x09] (source_errors @ target_errors))), s))"
  by (auto simp: submit_search_def submit_search_validate_def Let_def)

subsection \<open>The stages of validation on a dict\<close>

lemma results_dict_listed:
  "(results_dict (find_Text (db e) [Oid hs, Oid ht]) i = None)
     = (\<not> ((i = hs \<or> i = ht) \<and> i \<in> stored_ids e))"
  by (auto simp: results_dict_None stored_ids_def)

lemma stage_ids:
  assumes "missing_keys (iter_set e requireds) p = Inr []"
    and "getitem p ''source'' = Inr source" and "getitem p ''target'' = Inr target"
    and "validate_units source ''source'' = Inr []"
    and "validate_units target ''target'' = Inr []"
    and "getitem source ''object_id'' = Inr (JStr sid)"
    and "getitem target ''object_id'' = Inr (JStr tid)"
    and "parse_oid e sid = Some hs" and "parse_oid e tid = Some ht"
    and "listed_ids e sid tid hs ht \<noteq> []"
  shows "submit_search_validate e p =
    Inr (Inl (error 400 p
       (''Unable to find the following object_id(s) among the texts in the database:''
        @ [CHR 0x0A, CHR 0x09] @ join [CHR 0x0A, CHR 0x09] (listed_ids e sid tid hs ht))))"
  using assms
  by (auto simp: submit_search_validate_def Let_def ObjectId_def listed_ids_def
      not_in_results_def results_dict_listed join_values_def)

lemma listed_ids_Nil_D:
  assumes "listed_ids e sid tid hs ht = []"
  shows "\<exists>st tt. results_dict (find_Text (db e) [Oid hs, Oid ht]) sid = Some st
    \<and> results_dict (find_Text (db e) [Oid hs, Oid ht]) tid = Some tt
    \<and> sid \<in> stored_ids e \<and> tid \<in> stored_ids e"
proof -
  from assms have a:
    "(sid = hs \<or> sid = ht) \<and> sid \<in> stored_ids e"
    "(tid = hs \<or> tid = ht) \<and> tid \<in> stored_ids e"
    by (auto simp: listed_ids_def split: if_splits)
  then have "results_dict (find_Text (db e) [Oid hs, Oid ht]) sid \<noteq> None"
    "results_dict (find_Text (db e) [Oid hs, Oid ht]) tid \<noteq> None"
    using results_dict_listed [of e hs ht sid] results_dict_listed [of e hs ht tid]
    by blast+
  with a show ?thesis by blast
qed

lemma stage_method:
  assumes "missing_keys (iter_set e requireds) p = Inr []"
    and "getitem p ''source'' = Inr source" and "getitem p ''target'' = Inr target"
    and "validate_units source ''source'' = Inr []"
    and "validate_units target ''target'' = Inr []"
    and "getitem source ''object_id'' = Inr (JStr sid)"
    and "getitem target ''object_id'' = Inr (JStr tid)"
    and "parse_oid e sid = Some hs" and "parse_oid e tid = Some ht"
    and "results_dict (find_Text (db e) [Oid hs, Oid ht]) sid = Some st"
    and "results_dict (find_Text (db e) [Oid hs, Oid ht]) tid = Some tt"
    and "getitem p ''method'' = Inr (JDict mkv)"
  shows "submit_search_validate e p =
    (if ''name'' \<notin> fst ` set mkv
     then Inr (Inl (error 400 p ''No specified method name.''))
     else bnd (getitem (JDict mkv) ''name'') (\<lambda>name.
          bnd (method_requireds_getitem name) (\<lambda>reqs.
          let missing = filter (\<lambda>k. k \<notin> fst ` set mkv) (iter_set e reqs) in
          if missing \<noteq> [] then
            Inr (Inl (error 400 p
              (''The specified method is missing the following required key(s): ''
               @ join '', '' missing)))
          else Inr (Inr (st, tt, JDict mkv)))))"
  using assms
  by (simp add: submit_search_validate_def Let_def ObjectId_def not_in_results_def
      results_getitem_def missing_keys_dict)

lemma submit_search_rejected:
  "submit_search_validate e p = Inr (Inl r) \<Longrightarrow> submit_search e s p = (Inr r, s)"
  by (simp add: submit_search_def)

lemma filter_missing_Nil: "set ks = S \<Longrightarrow> (filter (\<lambda>k. k \<notin> K) ks = []) = (S \<subseteq> K)"
  by (auto simp: filter_empty_conv)

lemma filter_missing_set: "set ks = S \<Longrightarrow> set (filter (\<lambda>k. k \<notin> K) ks) = S - K"
  by auto

lemma iter_requireds: "iter_set_ok e \<Longrightarrow> set (iter_set e requireds) = requireds"
  by (simp add: iter_set_ok_def)

lemma iter_registry:
  "iter_set_ok e \<Longrightarrow> method_requireds n = Some reqs \<Longrightarrow> set (iter_set e reqs) = reqs"
  by (auto simp: iter_set_ok_def ran_def)

lemma keys_present:
  assumes "iter_set_ok e" and "requireds \<subseteq> fst ` set kvs"
  shows "missing_keys (iter_set e requireds) (JDict kvs) = Inr []"
  using assms by (simp add: missing_keys_dict filter_missing_Nil [OF iter_requireds])

lemma stage1_dict:
  assumes "iter_set_ok e" and "\<not> requireds \<subseteq> fst ` set kvs"
  shows "submit_search e s (JDict kvs) =
    (Inr (error 400 (JDict kvs)
       (''The request data payload is missing the following required key(s): ''
        @ join '', '' (filter (\<lambda>k. k \<notin> fst ` set kvs) (iter_set e requireds)))), s)"
proof -
  from assms have "filter (\<lambda>k. k \<notin> fst ` set kvs) (iter_set e requireds) \<noteq> []"
    by (simp add: filter_missing_Nil [OF iter_requireds])
  with submit_search_stage_responses [of e "JDict kvs" s] show ?thesis
    by (simp add: missing_keys_dict)
qed

lemma stage2_dict:
  assumes "iter_set_ok e" and "requireds \<subseteq> fst ` set kvs"
    and "map_of kvs ''source'' = Some (JDict skv)"
    and "map_of kvs ''target'' = Some (JDict tkv)"
    and "spec_unit_errors skv ''source'' @ spec_unit_errors tkv ''target'' \<noteq> []"
  shows "submit_search e s (JDict kvs) =
    (Inr (error 400 (JDict kvs)
       (''The following errors were found in source and target unit specifications:''
        @ [CHR 0x0A]
        @ join [CHR 0x0A, CHR 0x09]
            (spec_unit_errors skv ''source'' @ spec_unit_errors tkv ''target''))), s)"
  using assms(3-5) keys_present [OF assms(1,2)]
    submit_search_stage_responses [of e "JDict kvs" s]
  by (simp add: validate_units_dict)

lemma stage3_dict:
  assumes "iter_set_ok e" and "requireds \<subseteq> fst ` set kvs"
    and "map_of kvs ''source'' = Some (JDict skv)"
    and "map_of kvs ''target'' = Some (JDict tkv)"
    and "spec_unit_errors skv ''source'' @ spec_unit_errors tkv ''target'' = []"
    and "map_of skv ''object_id'' = Some (JStr sid)"
    and "map_of tkv ''object_id'' = Some (JStr tid)"
    and "parse_oid e sid = Some hs" and "parse_oid e tid = Some ht"
    and "listed_ids e sid tid hs ht \<noteq> []"
  shows "submit_search e s (JDict kvs) =
    (Inr (error 400 (JDict kvs)
       (''Unable to find the following object_id(s) among the texts in the database:''
        @ [CHR 0x0A, CHR 0x09]
        @ join [CHR 0x0A, CHR 0x09] (listed_ids e sid tid hs ht))), s)"
proof (rule submit_search_rejected, rule stage_ids)
  show "missing_keys (iter_set e requireds) (JDict kvs) = Inr []"
    by (rule keys_present [OF assms(1,2)])
  show "getitem (JDict kvs) ''source'' = Inr (JDict skv)" using assms(3) by simp
  show "getitem (JDict kvs) ''target'' = Inr (JDict tkv)" using assms(4) by simp
  show "validate_units (JDict skv) ''source'' = Inr []"
    using assms(5) by (simp add: validate_units_dict)
  show "validate_units (JDict tkv) ''target'' = Inr []"
    using assms(5) by (simp add: validate_units_dict)
  show "getitem (JDict skv) ''object_id'' = Inr (JStr sid)" using assms(6) by simp
  show "getitem (JDict tkv) ''object_id'' = Inr (JStr tid)" using assms(7) by simp
qed (rule assms)+

lemma method_stage_dict:
  assumes "iter_set_ok e" and "requireds \<subseteq> fst ` set kvs"
    and "map_of kvs ''source'' = Some (JDict skv)"
    and "map_of kvs ''target'' = Some (JDict tkv)"
    and "spec_unit_errors skv ''source'' @ spec_unit_errors tkv ''target'' = []"
    and "map_of skv ''object_id'' = Some (JStr sid)"
    and "map_of tkv ''object_id'' = Some (JStr tid)"
    and "parse_oid e sid = Some hs" and "parse_oid e tid = Some ht"
    and "listed_ids e sid tid hs ht = []"
    and "map_of kvs ''method'' = Some (JDict mkv)"
  shows "\<exists>st tt. submit_search_validate e (JDict kvs) =
    (if ''name'' \<notin> fst ` set mkv
     then Inr (Inl (error 400 (JDict kvs) ''No specified method name.''))
     else bnd (getitem (JDict mkv) ''name'') (\<lambda>name.
          bnd (method_requireds_getitem name) (\<lambda>reqs.
          let missing = filter (\<lambda>k. k \<notin> fst ` set mkv) (iter_set e reqs) in
          if missing \<noteq> [] then
            Inr (Inl (error 400 (JDict kvs)
              (''The specified method is missing the following required key(s): ''
               @ join '', '' missing)))
          else Inr (Inr (st, tt, JDict mkv)))))"
proof -
  from listed_ids_Nil_D [OF assms(10)] obtain st tt where
    st: "results_dict (find_Text (db e) [Oid hs, Oid ht]) sid = Some st" and
    tt: "results_dict (find_Text (db e) [Oid hs, Oid ht]) tid = Some tt" by blast
  have "submit_search_validate e (JDict kvs) =
    (if ''name'' \<notin> fst ` set mkv
     then Inr (Inl (error 400 (JDict kvs) ''No specified method name.''))
     else bnd (getitem (JDict mkv) ''name'') (\<lambda>name.
          bnd (method_requireds_getitem name) (\<lambda>reqs.
          let missing = filter (\<lambda>k. k \<notin> fst ` set mkv) (iter_set e reqs) in
          if missing \<noteq> [] then
            Inr (Inl (error 400 (JDict kvs)
              (''The specified method is missing the following required key(s): ''
               @ join '', '' missing)))
          else Inr (Inr (st, tt, JDict mkv)))))"
  proof (rule stage_method)
    show "missing_keys (iter_set e requireds) (JDict kvs) = Inr []"
      by (rule keys_present [OF assms(1,2)])
    show "getitem (JDict kvs) ''source'' = Inr (JDict skv)" using assms(3) by simp
    show "getitem (JDict kvs) ''target'' = Inr (JDict tkv)" using assms(4) by simp
    show "validate_units (JDict skv) ''source'' = Inr []"
      using assms(5) by (simp add: validate_units_dict)
    show "validate_units (JDict tkv) ''target'' = Inr []"
      using assms(5) by (simp add: validate_units_dict)
    show "getitem (JDict skv) ''object_id'' = Inr (JStr sid)" using assms(6) by simp
    show "getitem (JDict tkv) ''object_id'' = Inr (JStr tid)" using assms(7) by simp
    show "getitem (JDict kvs) ''method'' = Inr (JDict mkv)" using assms(11) by simp
  qed (rule assms st tt)+
  then show ?thesis by blast
qed

lemma stage4_dict:
  assumes "iter_set_ok e" and "requireds \<subseteq> fst ` set kvs"
    and "map_of kvs ''source'' = Some (JDict skv)"
    and "map_of kvs ''target'' = Some (JDict tkv)"
    and "spec_unit_errors skv ''source'' @ spec_unit_errors tkv ''target'' = []"
    and "map_of skv ''object_id'' = Some (JStr sid)"
    and "map_of tkv ''object_id'' = Some (JStr tid)"
    and "parse_oid e sid = Some hs" and "parse_oid e tid = Some ht"
    and "listed_ids e sid tid hs ht = []"
    and "map_of kvs ''method'' = Some (JDict mkv)"
    and "''name'' \<notin> fst ` set mkv"
  shows "submit_search e s (JDict kvs) =
    (Inr (error 400 (JDict kvs) ''No specified method name.''), s)"
proof -
  from method_stage_dict [OF assms(1-11)] assms(12)
  have "submit_search_validate e (JDict kvs) =
      Inr (Inl (error 400 (JDict kvs) ''No specified method name.''))"
    by auto
  then show ?thesis by (rule submit_search_rejected)
qed

lemma stage5_dict:
  assumes "iter_set_ok e" and "requireds \<subseteq> fst ` set kvs"
    and "map_of kvs ''source'' = Some (JDict skv)"
    and "map_of kvs ''target'' = Some (JDict tkv)"
    and "spec_unit_errors skv ''source'' @ spec_unit_errors tkv ''target'' = []"
    and "map_of skv ''object_id'' = Some (JStr sid)"
    and "map_of tkv ''object_id'' = Some (JStr tid)"
    and "parse_oid e sid = Some hs" and "parse_oid e tid = Some ht"
    and "listed_ids e sid tid hs ht = []"
    and "map_of kvs ''method'' = Some (JDict mkv)"
    and "map_of mkv ''name'' = Some (JStr n)" and "method_requireds n = Some reqs"
    and "\<not> reqs \<subseteq> fst ` set mkv"
  shows "submit_search e s (JDict kvs) =
    (Inr (error 400 (JDict kvs)
       (''The specified method is missing the following required key(s): ''
        @ join '', '' (filter (\<lambda>k. k \<notin> fst ` set mkv) (iter_set e reqs)))), s)"
proof -
  from assms(14) have ne: "filter (\<lambda>k. k \<notin> fst ` set mkv) (iter_set e reqs) \<noteq> []"
    by (simp add: filter_missing_Nil [OF iter_registry [OF assms(1,13)]])
  from assms(12) have "''name'' \<in> fst ` set mkv" by (simp add: key_in_dict)
  with method_stage_dict [OF assms(1-11)] assms(12,13) ne
  have "submit_search_validate e (JDict kvs) =
      Inr (Inl (error 400 (JDict kvs)
        (''The specified method is missing the following required key(s): ''
         @ join '', '' (filter (\<lambda>k. k \<notin> fst ` set mkv) (iter_set e reqs)))))"
    by (auto simp: method_requireds_getitem_def)
  then show ?thesis by (rule submit_search_rejected)
qed

subsection \<open>The rules of the spec and the handler\<close>

lemma units_ok_dict: "units_ok (JDict kvs) = (spec_unit_errors kvs name = [])"
  by (auto simp: units_ok_def lookup_def spec_unit_errors_def split: option.splits)

lemma lookup_getitem: "(getitem d k = Inr v) = (lookup d k = Some v)"
  by (cases d) (auto simp: lookup_def split: option.splits)

lemma validate_units_Nil_units_ok:
  assumes "validate_units spec name = Inr []"
  shows "units_ok spec"
proof -
  from validate_units_Nil_D [OF assms] obtain kvs where "spec = JDict kvs"
    by (auto dest: getitem_Inr_D)
  with assms show ?thesis
    by (simp add: validate_units_dict units_ok_dict [of kvs name])
qed

lemma results_dict_Some_stored:
  "results_dict (find_Text (db e) ids) i = Some t \<Longrightarrow> i \<in> stored_ids e"
  using results_dict_None [of "db e" ids i] by (auto simp: stored_ids_def)

lemma accepted_meets_rules:
  assumes ok: "iter_set_ok e"
    and acc: "submit_search_validate e p = Inr (Inr accepted)"
  shows "meets_rules e p"
proof -
  obtain source_text target_text m where a: "accepted = (source_text, target_text, m)"
    by (cases accepted) auto
  from validate_accepted_D [OF acc [unfolded a]]
  obtain source target sid tid hs ht name reqs where f:
    "getitem p ''source'' = Inr source" "getitem p ''target'' = Inr target"
    "validate_units source ''source'' = Inr []" "validate_units target ''target'' = Inr []"
    "getitem source ''object_id'' = Inr (JStr sid)" "getitem target ''object_id'' = Inr (JStr tid)"
    "results_dict (find_Text (db e) [Oid hs, Oid ht]) sid = Some source_text"
    "results_dict (find_Text (db e) [Oid hs, Oid ht]) tid = Some target_text"
    "getitem p ''method'' = Inr m"
    "getitem m ''name'' = Inr (JStr name)" "method_requireds name = Some reqs"
    "missing_keys (iter_set e reqs) m = Inr []"
    by blast
  from f(10) obtain mkv where m: "m = JDict mkv" by (blast dest: getitem_Inr_D)
  have "lookup m k \<noteq> None" if "k \<in> reqs" for k
  proof -
    from that iter_registry [OF ok f(11)] have "k \<in> set (iter_set e reqs)" by simp
    from missing_keys_Nil_D [OF f(12) this] show ?thesis
      unfolding m by (simp add: lookup_def key_in_dict)
  qed
  with f(10,11) have "method_ok m"
    by (simp add: method_ok_def lookup_getitem)
  moreover have "units_ok source" "units_ok target"
    by (rule validate_units_Nil_units_ok [OF f(3)], rule validate_units_Nil_units_ok [OF f(4)])
  moreover have "resolves e source" "resolves e target"
    using f(5,6) results_dict_Some_stored [OF f(7)] results_dict_Some_stored [OF f(8)]
    by (simp_all add: resolves_def lookup_getitem)
  ultimately show ?thesis
    using f(1,2,9) by (simp add: meets_rules_def lookup_getitem)
qed

lemma queue_changed_accepted:
  "snd (submit_search e s p) \<noteq> s \<Longrightarrow> \<exists>accepted. submit_search_validate e p = Inr (Inr accepted)"
  by (auto simp: submit_search_def split: sum.splits)

lemma is_dict_D: "is_dict v \<Longrightarrow> \<exists>kvs. v = JDict kvs"
  by (cases v) (simp_all add: is_dict_def)

lemma well_typed_D:
  assumes "well_typed e (JDict kvs)" and "requireds \<subseteq> fst ` set kvs"
  shows "\<exists>skv tkv mkv.
      map_of kvs ''source'' = Some (JDict skv) \<and> map_of kvs ''target'' = Some (JDict tkv)
    \<and> map_of kvs ''method'' = Some (JDict mkv)
    \<and> accepted_id e (JDict skv) \<and> accepted_id e (JDict tkv) \<and> registered_name (JDict mkv)"
proof -
  from assms(2) obtain sv tv mv where
    look: "map_of kvs ''source'' = Some sv" "map_of kvs ''target'' = Some tv"
      "map_of kvs ''method'' = Some mv"
    by (auto simp: requireds_def key_in_dict)
  with assms(1) have "is_dict sv" "is_dict tv" "is_dict mv"
    "accepted_id e sv" "accepted_id e tv" "registered_name mv"
    by (simp_all add: well_typed_def lookup_def)
  with look show ?thesis by (auto dest!: is_dict_D)
qed

lemma accepted_id_D:
  assumes "accepted_id e (JDict kvs)" and "units_ok (JDict kvs)"
  shows "\<exists>i h. map_of kvs ''object_id'' = Some (JStr i) \<and> parse_oid e i = Some h"
  using assms
  by (auto simp: units_ok_def accepted_id_def lookup_def split: option.splits json.splits)

lemma registered_name_D:
  assumes "registered_name (JDict mkv)" and "''name'' \<in> fst ` set mkv"
  shows "\<exists>n reqs. map_of mkv ''name'' = Some (JStr n) \<and> method_requireds n = Some reqs"
  using assms
  by (auto simp: registered_name_def lookup_def key_in_dict split: option.splits json.splits)

lemma rejected_400:
  assumes ok: "iter_set_ok e" and wt: "well_typed e p" and bad: "\<not> meets_rules e p"
  shows "\<exists>message. submit_search e s p = (Inr (error 400 p message), s)"
proof -
  from wt obtain kvs where p: "p = JDict kvs"
    by (auto simp: well_typed_def dest: is_dict_D)
  show ?thesis
  proof (cases "requireds \<subseteq> fst ` set kvs")
    case False
    from stage1_dict [OF ok False] show ?thesis unfolding p by (rule exI)
  next
    case True
    from well_typed_D [OF wt [unfolded p] True] obtain skv tkv mkv where
      look: "map_of kvs ''source'' = Some (JDict skv)" "map_of kvs ''target'' = Some (JDict tkv)"
        "map_of kvs ''method'' = Some (JDict mkv)"
      and ids: "accepted_id e (JDict skv)" "accepted_id e (JDict tkv)"
      and reg: "registered_name (JDict mkv)"
      by blast
    show ?thesis
    proof (cases "spec_unit_errors skv ''source'' @ spec_unit_errors tkv ''target'' = []")
      case False
      from stage2_dict [OF ok True look(1,2) False] show ?thesis unfolding p by (rule exI)
    next
      case units: True
      then have uo: "units_ok (JDict skv)" "units_ok (JDict tkv)"
        by (simp_all add: units_ok_dict [of skv "''source''"] units_ok_dict [of tkv "''target''"])
      from accepted_id_D [OF ids(1) uo(1)] obtain sid hs where
        si: "map_of skv ''object_id'' = Some (JStr sid)" "parse_oid e sid = Some hs" by blast
      from accepted_id_D [OF ids(2) uo(2)] obtain tid ht where
        ti: "map_of tkv ''object_id'' = Some (JStr tid)" "parse_oid e tid = Some ht" by blast
      show ?thesis
      proof (cases "listed_ids e sid tid hs ht = []")
        case False
        from stage3_dict [OF ok True look(1,2) units si(1) ti(1) si(2) ti(2) False]
        show ?thesis unfolding p by (rule exI)
      next
        case found: True
        from listed_ids_Nil_D [OF found] have stored: "sid \<in> stored_ids e" "tid \<in> stored_ids e"
          by blast+
        show ?thesis
        proof (cases "''name'' \<in> fst ` set mkv")
          case False
          from stage4_dict [OF ok True look(1,2) units si(1) ti(1) si(2) ti(2) found look(3) False]
          show ?thesis unfolding p by (rule exI)
        next
          case named: True
          from registered_name_D [OF reg named] obtain n reqs where
            n: "map_of mkv ''name'' = Some (JStr n)" "method_requireds n = Some reqs"
            by blast
          show ?thesis
          proof (cases "reqs \<subseteq> fst ` set mkv")
            case False
            from stage5_dict [OF ok True look(1,2) units si(1) ti(1) si(2) ti(2) found look(3)
                n False]
            show ?thesis unfolding p by (rule exI)
          next
            case keys: True
            have "\<forall>k \<in> reqs. map_of mkv k \<noteq> None"
            proof
              fix k assume "k \<in> reqs"
              with keys have "k \<in> fst ` set mkv" by blast
              with key_in_dict [of k mkv] show "map_of mkv k \<noteq> None" by blast
            qed
            with n have "method_ok (JDict mkv)"
              by (simp add: method_ok_def lookup_def)
            moreover from si ti stored have "resolves e (JDict skv)" "resolves e (JDict tkv)"
              by (simp_all add: resolves_def lookup_def)
            ultimately have "meets_rules e p"
              using uo look by (simp add: meets_rules_def lookup_def p)
            with bad show ?thesis by contradiction
          qed
        qed
      qed
    qed
  qed
qed

subsection \<open>The location of a job\<close>

lemma hexdigit_in: "hexdigit n \<in> set ''0123456789abcdef''"
  unfolding hexdigit_def by (rule nth_mem) simp

lemma hexdigit_not_slash: "hexdigit n \<noteq> CHR ''/''"
  using hexdigit_in [of n] by auto

lemma uuid_hex_no_slash: "CHR ''/'' \<notin> set (uuid_hex w)"
  by (auto simp: uuid_hex_def hexdigit_not_slash [symmetric])

lemma uuid_hex_length: "length (uuid_hex w) = 32"
  by (simp add: uuid_hex_def)

lemma path_join_no_slash:
  assumes "x \<noteq> []" "CHR ''/'' \<notin> set x"
  shows "os_path_join ''/parallels'' [x, []] = ''/parallels/'' @ x @ ''/''"
proof -
  from assms obtain c cs where x: "x = c # cs" by (cases x) auto
  with assms have c: "c \<noteq> CHR ''/''" by auto
  from assms have "last x \<noteq> CHR ''/''" using last_in_set by metis
  with x c show ?thesis
    by (simp add: os_path_join_def path_join_step_def)
qed

lemma location_of_uuid:
  "os_path_join url_prefix [uuid_hex w, []] = ''/parallels/'' @ uuid_hex w @ ''/''"
proof -
  have "uuid_hex w \<noteq> []" using uuid_hex_length [of w] by auto
  then show ?thesis
    unfolding url_prefix_def by (rule path_join_no_slash) (rule uuid_hex_no_slash)
qed

subsection \<open>Looking up the first matching document\<close>

lemma find_None_filter: "(List.find P xs = None) = (filter P xs = [])"
  by (induction xs) auto

lemma find_Some_filter: "List.find P xs = Some x \<Longrightarrow> \<exists>rest. filter P xs = x # rest"
  by (induction xs) (auto split: if_splits)

subsection \<open>The example deployment\<close>

lemmas example_defs = ex_env_def ex_store_def ex_request_def request_def unit_spec_def
  ex_method_def aeneid_def pharsalia_def aeneid_id_def pharsalia_id_def idle_searcher_def
  busy_searcher_def ex_params_def literal_order_def hex24_def lower_hex_def is_hex_def
  is_space_def
  finished_match_set_def

lemmas handler_defs = submit_search_validate_def validate_units_def ObjectId_def
  results_dict_def find_Text_def not_in_results_def results_getitem_def
  method_requireds_getitem_def method_requireds_def requireds_def error_def jsonify_def
  join_values_def str_def Let_def

lemma ran_method_requireds:
  "ran method_requireds = {{''name'', ''feature'', ''stopwords'', ''freq_basis'', ''max_distance'', ''distance_basis''}}"
  by (simp add: method_requireds_def)

lemma ex_env_iter_set_ok: "iter_set_ok ex_env"
  by (auto simp: iter_set_ok_def ran_method_requireds requireds_def ex_env_def literal_order_def)

lemma ex_request_accepted:
  "submit_search_validate ex_env ex_request = Inr (Inr (aeneid, pharsalia, ex_method))"
  by (simp add: handler_defs example_defs)

lemma ex_uuid_hex: "uuid_hex (uuid4 ex_env) = ''9f1c2b3a4d5e6f708192a3b4c5d6e7f8''"
  by (simp add: ex_env_def uuid_hex_def hexdigit_def upt_rec)

lemma ex_stored_ids: "stored_ids ex_env = {aeneid_id, pharsalia_id}"
  by (auto simp: stored_ids_def ex_env_def ex_store_def aeneid_def pharsalia_def)

lemma ex_parse_oid:
  "parse_oid ex_env aeneid_id = Some aeneid_id"
  "parse_oid ex_env pharsalia_id = Some pharsalia_id"
  "parse_oid ex_env absent_id = Some absent_id"
  by (simp_all add: ex_env_def hex24_def aeneid_id_def pharsalia_id_def absent_id_def
      is_space_def is_hex_def lower_hex_def)

lemma ex_unit_errors:
  "spec_unit_errors [(''object_id'', JStr i), (''units'', JStr ''line'')] name = []"
  "spec_unit_errors [(''object_id'', JStr i), (''units'', JStr ''phrase'')] name = []"
  "spec_unit_errors [(''object_id'', JStr i), (''units'', JStr ''word'')] name
     = [name @ '' has unrecognized units: word'']"
  by (simp_all add: spec_unit_errors_def str_def)

lemma ex_request_args:
  "queue_search_args ex_request aeneid pharsalia ex_method = Inr (JStr ''original'', ex_params)"
  by (simp add: queue_search_args_def example_defs)

lemma ex_request_queued:
  "snd (submit_search ex_env idle_searcher ex_request) =
     \<lparr>queue = [(uuid_hex (uuid4 ex_env), JStr ''original'', ex_params)], maxsize = 2\<rparr>"
  by (simp add: submit_search_def ex_request_accepted ex_request_args queue_search_def
      idle_searcher_def Let_def)

section \<open>Properties of \<^verbatim>\<open>submit_search\<close>\<close>

subsection \<open>Method names outside the registry\<close>

text \<open>
  Claim C1 says that a method name that is not a key of the registry is answered with a
  400 response naming it. The handler looks the name up in the registry without testing
  for membership: for the request below, valid but for its method name \<^verbatim>\<open>bigram\<close>, it
  raises \<^verbatim>\<open>KeyError\<close> and returns no response.
\<close>

theorem submit_search_unregistered_method_raises:
  "submit_search ex_env idle_searcher unregistered_request = (Inl KeyError, idle_searcher)"
  by (simp add: submit_search_def unregistered_request_def handler_defs example_defs)

subsection \<open>A full queue\<close>

text \<open>
  Claim C2 says that a valid submission that finds the queue at capacity is answered
  with a 5xx response that advises to retry. The handler catches \<^verbatim>\<open>queue.Full\<close> and then
  evaluates \<^verbatim>\<open>apitess.error.error\<close>, a name that the module does not import (it imports
  \<^verbatim>\<open>apitess.errors\<close>): with the name unbound, the handler raises \<^verbatim>\<open>AttributeError\<close>
  in place of the response. The searcher is left as it was.
\<close>

theorem submit_search_queue_full_raises:
  "length (queue busy_searcher) = maxsize busy_searcher
   \<and> submit_search_validate ex_env ex_request = Inr (Inr (aeneid, pharsalia, ex_method))
   \<and> submit_search ex_env busy_searcher ex_request = (Inl AttributeError, busy_searcher)"
proof -
  have "queue_search_args ex_request aeneid pharsalia ex_method = Inr (JStr ''original'', ex_params)"
    by (simp add: queue_search_args_def example_defs)
  moreover have "queue_search busy_searcher (uuid_hex (uuid4 ex_env)) (JStr ''original'') ex_params
      = (Inl Full, busy_searcher)"
    by (simp add: queue_search_def busy_searcher_def)
  moreover have "apitess_error ex_env = None"
    by (simp add: ex_env_def)
  ultimately show ?thesis
    by (simp add: submit_search_def ex_request_accepted Let_def busy_searcher_def)
qed

subsection \<open>The stages of validation\<close>

text \<open>
  Claim C3 says that one 400 response reports every violation of the payload. For the
  request with three faults the response reports the unit of the source only: the
  target that is no stored text and the missing method keys are not in the message.
\<close>

theorem submit_search_reports_first_stage_only:
  "fst (submit_search ex_env idle_searcher three_faults_request) =
     Inr (error 400 three_faults_request
       (''The following errors were found in source and target unit specifications:''
        @ [CHR 0x0A] @ ''source has unrecognized units: word''))
   \<and> absent_id \<notin> text_id ` set (Text_collection (db ex_env))
   \<and> py_in ''feature'' (JDict [(''name'', JStr ''original'')]) = Inr False
   \<and> \<not> substring absent_id
        (''The following errors were found in source and target unit specifications:''
         @ [CHR 0x0A] @ ''source has unrecognized units: word'')
   \<and> \<not> substring ''feature''
        (''The following errors were found in source and target unit specifications:''
         @ [CHR 0x0A] @ ''source has unrecognized units: word'')"
  by (simp add: submit_search_def three_faults_request_def absent_id_def handler_defs example_defs)

text \<open>
  Claim C3, amended. Validation goes by five stages and returns at the first stage that
  finds a violation; the 400 response reports every violation that this stage finds and
  nothing of the later stages, which are not evaluated. On a payload that is a dict:
  \<^enum> when top-level keys are missing, the response lists exactly the missing keys;
  \<^enum> otherwise, when source and target are dicts that violate the rule for unit
    specifications, it lists every violation of the source, then every violation of
    the target;
  \<^enum> otherwise, when \<^verbatim>\<open>ObjectId\<close> accepts both \<^verbatim>\<open>object_id\<close> strings and one of them is
    not the rendering of a text that the lookup found, it lists every such string;
  \<^enum> otherwise, when the method is a dict without \<^verbatim>\<open>name\<close>, it says so;
  \<^enum> otherwise, when the name is registered and required keys are missing from the
    method, it lists exactly the missing keys.

  The searcher is left as it was in all five cases.
\<close>

theorem submit_search_staged:
  assumes ok: "iter_set_ok e"
  shows
  "(\<not> requireds \<subseteq> fst ` set kvs \<longrightarrow>
      submit_search e s (JDict kvs) =
        (Inr (error 400 (JDict kvs)
           (''The request data payload is missing the following required key(s): ''
            @ join '', '' (filter (\<lambda>k. k \<notin> fst ` set kvs) (iter_set e requireds)))), s)
      \<and> set (filter (\<lambda>k. k \<notin> fst ` set kvs) (iter_set e requireds))
          = requireds - fst ` set kvs)
   \<and> (requireds \<subseteq> fst ` set kvs
        \<and> map_of kvs ''source'' = Some (JDict skv) \<and> map_of kvs ''target'' = Some (JDict tkv) \<longrightarrow>
      (spec_unit_errors skv ''source'' @ spec_unit_errors tkv ''target'' \<noteq> [] \<longrightarrow>
         submit_search e s (JDict kvs) =
           (Inr (error 400 (JDict kvs)
              (''The following errors were found in source and target unit specifications:''
               @ [CHR 0x0A]
               @ join [CHR 0x0A, CHR 0x09]
                   (spec_unit_errors skv ''source'' @ spec_unit_errors tkv ''target''))), s))
      \<and> (spec_unit_errors skv ''source'' @ spec_unit_errors tkv ''target'' = []
           \<and> map_of skv ''object_id'' = Some (JStr sid)
           \<and> map_of tkv ''object_id'' = Some (JStr tid)
           \<and> parse_oid e sid = Some hs \<and> parse_oid e tid = Some ht \<longrightarrow>
         (listed_ids e sid tid hs ht \<noteq> [] \<longrightarrow>
            submit_search e s (JDict kvs) =
              (Inr (error 400 (JDict kvs)
                 (''Unable to find the following object_id(s) among the texts in the database:''
                  @ [CHR 0x0A, CHR 0x09]
                  @ join [CHR 0x0A, CHR 0x09] (listed_ids e sid tid hs ht))), s))
         \<and> (listed_ids e sid tid hs ht = [] \<and> map_of kvs ''method'' = Some (JDict mkv) \<longrightarrow>
            (''name'' \<notin> fst ` set mkv \<longrightarrow>
               submit_search e s (JDict kvs) =
                 (Inr (error 400 (JDict kvs) ''No specified method name.''), s))
            \<and> (map_of mkv ''name'' = Some (JStr n) \<and> method_requireds n = Some reqs
                 \<and> \<not> reqs \<subseteq> fst ` set mkv \<longrightarrow>
               submit_search e s (JDict kvs) =
                 (Inr (error 400 (JDict kvs)
                    (''The specified method is missing the following required key(s): ''
                     @ join '', '' (filter (\<lambda>k. k \<notin> fst ` set mkv) (iter_set e reqs)))), s)
               \<and> set (filter (\<lambda>k. k \<notin> fst ` set mkv) (iter_set e reqs))
                   = reqs - fst ` set mkv))))"
proof (intro conjI impI; (elim conjE)?)
  show "set (filter (\<lambda>k. k \<notin> fst ` set kvs) (iter_set e requireds)) = requireds - fst ` set kvs"
    by (rule filter_missing_set [OF iter_requireds [OF ok]])
next
  assume "method_requireds n = Some reqs"
  then show "set (filter (\<lambda>k. k \<notin> fst ` set mkv) (iter_set e reqs)) = reqs - fst ` set mkv"
    by (rule filter_missing_set [OF iter_registry [OF ok]])
qed (rule stage1_dict stage2_dict stage3_dict stage4_dict stage5_dict; (rule ok | assumption))+

theorem submit_search_staged_witness:
  "iter_set_ok ex_env
   \<and> submit_search ex_env idle_searcher source_only_request =
     (Inr (error 400 source_only_request
        ''The request data payload is missing the following required key(s): target, method''),
      idle_searcher)
   \<and> submit_search ex_env idle_searcher three_faults_request =
     (Inr (error 400 three_faults_request
        (''The following errors were found in source and target unit specifications:''
         @ [CHR 0x0A] @ ''source has unrecognized units: word'')),
      idle_searcher)
   \<and> submit_search ex_env idle_searcher unknown_target_request =
     (Inr (error 400 unknown_target_request
        (''Unable to find the following object_id(s) among the texts in the database:''
         @ [CHR 0x0A, CHR 0x09] @ absent_id)),
      idle_searcher)
   \<and> submit_search ex_env idle_searcher nameless_request =
     (Inr (error 400 nameless_request ''No specified method name.''), idle_searcher)
   \<and> submit_search ex_env idle_searcher bare_method_request =
     (Inr (error 400 bare_method_request
        (''The specified method is missing the following required key(s): ''
         @ ''stopwords, freq_basis, max_distance, distance_basis'')),
      idle_searcher)"
proof -
  note ok = ex_env_iter_set_ok
  let ?line = "[(''object_id'', JStr aeneid_id), (''units'', JStr ''line'')]"
  let ?word = "[(''object_id'', JStr aeneid_id), (''units'', JStr ''word'')]"
  let ?absent = "[(''object_id'', JStr absent_id), (''units'', JStr ''phrase'')]"
  let ?phrase = "[(''object_id'', JStr pharsalia_id), (''units'', JStr ''phrase'')]"
  let ?reqs = "{''name'', ''feature'', ''stopwords'', ''freq_basis'', ''max_distance'',
       ''distance_basis''}"
  have order: "iter_set ex_env requireds = [''source'', ''target'', ''method'']"
    "iter_set ex_env ?reqs
     = [''name'', ''feature'', ''stopwords'', ''freq_basis'', ''max_distance'', ''distance_basis'']"
    by (simp_all add: ex_env_def literal_order_def requireds_def)
  have registry: "method_requireds ''original'' = Some ?reqs"
    by (simp add: method_requireds_def)
  have keys: "requireds \<subseteq> fst ` set [(''source'', a), (''target'', b), (''method'', c)]"
    for a b c :: json
    by (simp add: requireds_def)
  have units: "spec_unit_errors ?line ''source'' @ spec_unit_errors ?absent ''target'' = []"
    "spec_unit_errors ?line ''source'' @ spec_unit_errors ?phrase ''target'' = []"
    by (simp_all add: ex_unit_errors)

  have "\<not> requireds \<subseteq> fst ` set [(''source'', unit_spec aeneid_id ''line'')]"
    by (simp add: requireds_def)
  from submit_search_staged [OF ok, where s = idle_searcher, THEN conjunct1, THEN mp, OF this,
      THEN conjunct1]
  have first: "submit_search ex_env idle_searcher source_only_request =
     (Inr (error 400 source_only_request
        ''The request data payload is missing the following required key(s): target, method''),
      idle_searcher)"
    unfolding source_only_request_def order by (simp add: requireds_def)

  have "requireds \<subseteq> fst ` set [(''source'', JDict ?word), (''target'', JDict ?absent),
            (''method'', JDict [(''name'', JStr ''original'')])]
      \<and> map_of [(''source'', JDict ?word), (''target'', JDict ?absent),
            (''method'', JDict [(''name'', JStr ''original'')])] ''source'' = Some (JDict ?word)
      \<and> map_of [(''source'', JDict ?word), (''target'', JDict ?absent),
            (''method'', JDict [(''name'', JStr ''original'')])] ''target'' = Some (JDict ?absent)"
    by (simp add: requireds_def)
  moreover have "spec_unit_errors ?word ''source'' @ spec_unit_errors ?absent ''target'' \<noteq> []"
    by (simp add: ex_unit_errors)
  ultimately have "submit_search ex_env idle_searcher
      (JDict [(''source'', JDict ?word), (''target'', JDict ?absent),
            (''method'', JDict [(''name'', JStr ''original'')])]) =
     (Inr (error 400 (JDict [(''source'', JDict ?word), (''target'', JDict ?absent),
            (''method'', JDict [(''name'', JStr ''original'')])])
        (''The following errors were found in source and target unit specifications:''
         @ [CHR 0x0A]
         @ join [CHR 0x0A, CHR 0x09]
             (spec_unit_errors ?word ''source'' @ spec_unit_errors ?absent ''target''))),
      idle_searcher)"
    by (rule submit_search_staged [OF ok, THEN conjunct2, THEN mp, THEN conjunct1, THEN mp])
  then have second: "submit_search ex_env idle_searcher three_faults_request =
     (Inr (error 400 three_faults_request
        (''The following errors were found in source and target unit specifications:''
         @ [CHR 0x0A] @ ''source has unrecognized units: word'')),
      idle_searcher)"
    by (simp add: three_faults_request_def request_def unit_spec_def ex_unit_errors)

  have shape: "requireds \<subseteq> fst ` set [(''source'', JDict ?line), (''target'', JDict t), (''method'', m)]
      \<and> map_of [(''source'', JDict ?line), (''target'', JDict t), (''method'', m)] ''source''
          = Some (JDict ?line)
      \<and> map_of [(''source'', JDict ?line), (''target'', JDict t), (''method'', m)] ''target''
          = Some (JDict t)" for t m
    by (simp add: requireds_def)
  have absent: "spec_unit_errors ?line ''source'' @ spec_unit_errors ?absent ''target'' = []
      \<and> map_of ?line ''object_id'' = Some (JStr aeneid_id)
      \<and> map_of ?absent ''object_id'' = Some (JStr absent_id)
      \<and> parse_oid ex_env aeneid_id = Some aeneid_id
      \<and> parse_oid ex_env absent_id = Some absent_id"
    by (simp add: units ex_parse_oid)
  have present: "spec_unit_errors ?line ''source'' @ spec_unit_errors ?phrase ''target'' = []
      \<and> map_of ?line ''object_id'' = Some (JStr aeneid_id)
      \<and> map_of ?phrase ''object_id'' = Some (JStr pharsalia_id)
      \<and> parse_oid ex_env aeneid_id = Some aeneid_id
      \<and> parse_oid ex_env pharsalia_id = Some pharsalia_id"
    by (simp add: units ex_parse_oid)
  have listed: "listed_ids ex_env aeneid_id absent_id aeneid_id absent_id = [absent_id]"
    "listed_ids ex_env aeneid_id pharsalia_id aeneid_id pharsalia_id = []"
    by (simp_all add: listed_ids_def ex_stored_ids aeneid_id_def pharsalia_id_def absent_id_def)

  have "listed_ids ex_env aeneid_id absent_id aeneid_id absent_id \<noteq> []"
    by (simp add: listed)
  from submit_search_staged [OF ok, where s = idle_searcher, THEN conjunct2, THEN mp,
      OF shape [of ?absent ex_method], THEN conjunct2, THEN mp, OF absent, THEN conjunct1,
      THEN mp, OF this]
  have third: "submit_search ex_env idle_searcher unknown_target_request =
     (Inr (error 400 unknown_target_request
        (''Unable to find the following object_id(s) among the texts in the database:''
         @ [CHR 0x0A, CHR 0x09] @ absent_id)),
      idle_searcher)"
    by (simp add: unknown_target_request_def request_def unit_spec_def listed)

  have nameless: "listed_ids ex_env aeneid_id pharsalia_id aeneid_id pharsalia_id = []
      \<and> map_of [(''source'', JDict ?line), (''target'', JDict ?phrase),
            (''method'', JDict [(''feature'', JStr ''lemma'')])] ''method''
          = Some (JDict [(''feature'', JStr ''lemma'')])"
    by (simp add: listed)
  have "''name'' \<notin> fst ` set [(''feature'', JStr ''lemma'')]" by simp
  from submit_search_staged [OF ok, where s = idle_searcher, THEN conjunct2, THEN mp,
      OF shape [of ?phrase "JDict [(''feature'', JStr ''lemma'')]"], THEN conjunct2, THEN mp,
      OF present, THEN conjunct2, THEN mp, OF nameless, THEN conjunct1, THEN mp, OF this]
  have fourth: "submit_search ex_env idle_searcher nameless_request =
     (Inr (error 400 nameless_request ''No specified method name.''), idle_searcher)"
    by (simp add: nameless_request_def request_def unit_spec_def)

  let ?bare = "[(''name'', JStr ''original''), (''feature'', JStr ''lemma'')]"
  have bare: "listed_ids ex_env aeneid_id pharsalia_id aeneid_id pharsalia_id = []
      \<and> map_of [(''source'', JDict ?line), (''target'', JDict ?phrase),
            (''method'', JDict ?bare)] ''method'' = Some (JDict ?bare)"
    by (simp add: listed)
  have "map_of ?bare ''name'' = Some (JStr ''original'')
      \<and> method_requireds ''original'' = Some ?reqs \<and> \<not> ?reqs \<subseteq> fst ` set ?bare"
    by (simp add: registry)
  from submit_search_staged [OF ok, where s = idle_searcher, THEN conjunct2, THEN mp,
      OF shape [of ?phrase "JDict ?bare"], THEN conjunct2, THEN mp,
      OF present, THEN conjunct2, THEN mp, OF bare, THEN conjunct2, THEN mp, OF this,
      THEN conjunct1]
  have fifth: "submit_search ex_env idle_searcher bare_method_request =
     (Inr (error 400 bare_method_request
        (''The specified method is missing the following required key(s): ''
         @ ''stopwords, freq_basis, max_distance, distance_basis'')),
      idle_searcher)"
    unfolding order by (simp add: bare_method_request_def request_def unit_spec_def)
  from ok first second third fourth fifth show ?thesis by blast
qed

subsection \<open>Identifiers that do not resolve\<close>

text \<open>
  Claim C4 says that whenever the unit specifications pass and an \<^verbatim>\<open>object_id\<close> does
  not resolve to a stored text, a 400 response lists the unresolved ids. The handler
  hands each id to \<^verbatim>\<open>ObjectId\<close> first and does not guard the call: for the ids \<^verbatim>\<open>A\<close> and
  \<^verbatim>\<open>B\<close>, whose unit specifications pass and which name no stored text, it raises
  \<^verbatim>\<open>InvalidId\<close> and returns no response.
\<close>

theorem submit_search_malformed_ids_raise:
  "validate_units (unit_spec ''A'' ''line'') ''source'' = Inr []
   \<and> validate_units (unit_spec ''B'' ''phrase'') ''target'' = Inr []
   \<and> ''A'' \<notin> text_id ` set (Text_collection (db ex_env))
   \<and> ''B'' \<notin> text_id ` set (Text_collection (db ex_env))
   \<and> submit_search ex_env idle_searcher malformed_ids_request = (Inl InvalidId, idle_searcher)"
  by (simp add: submit_search_def malformed_ids_request_def handler_defs example_defs)

text \<open>
  The strings of the request are also what the handler looks for among the renderings
  of the texts that the lookup found. An identifier of a stored text that is sent in
  upper case is accepted by \<^verbatim>\<open>ObjectId\<close> and the lookup finds the text, yet the handler
  lists the identifier as not found.
\<close>

lemma upper_case_parse: "parse_oid ex_env ''5C6C69F042FACF59122418F6'' = Some aeneid_id"
  by (simp add: ex_env_def hex24_def aeneid_id_def is_space_def is_hex_def lower_hex_def)

lemma submit_search_upper_case_id_listed:
  "parse_oid ex_env ''5C6C69F042FACF59122418F6'' = Some aeneid_id
   \<and> find_Text (db ex_env) [Oid aeneid_id, Oid absent_id] = [aeneid]
   \<and> submit_search ex_env idle_searcher upper_case_request =
     (Inr (error 400 upper_case_request
        (''Unable to find the following object_id(s) among the texts in the database:''
         @ [CHR 0x0A, CHR 0x09] @ ''5C6C69F042FACF59122418F6''
         @ [CHR 0x0A, CHR 0x09] @ absent_id)),
      idle_searcher)"
proof -
  let ?upper = "[(''object_id'', JStr ''5C6C69F042FACF59122418F6''), (''units'', JStr ''line'')]"
  let ?absent = "[(''object_id'', JStr absent_id), (''units'', JStr ''phrase'')]"
  have found: "find_Text (db ex_env) [Oid aeneid_id, Oid absent_id] = [aeneid]"
    by (simp add: find_Text_def ex_env_def ex_store_def aeneid_def pharsalia_def aeneid_id_def
        pharsalia_id_def absent_id_def)
  have listed: "listed_ids ex_env ''5C6C69F042FACF59122418F6'' absent_id aeneid_id absent_id
      = [''5C6C69F042FACF59122418F6'', absent_id]"
    by (simp add: listed_ids_def ex_stored_ids aeneid_id_def pharsalia_id_def absent_id_def)
  have "submit_search ex_env idle_searcher
      (JDict [(''source'', JDict ?upper), (''target'', JDict ?absent), (''method'', ex_method)]) =
     (Inr (error 400
        (JDict [(''source'', JDict ?upper), (''target'', JDict ?absent), (''method'', ex_method)])
        (''Unable to find the following object_id(s) among the texts in the database:''
         @ [CHR 0x0A, CHR 0x09]
         @ join [CHR 0x0A, CHR 0x09]
             (listed_ids ex_env ''5C6C69F042FACF59122418F6'' absent_id aeneid_id absent_id))),
      idle_searcher)"
  proof (rule stage3_dict [OF ex_env_iter_set_ok])
    show "requireds \<subseteq> fst ` set [(''source'', JDict ?upper), (''target'', JDict ?absent),
        (''method'', ex_method)]"
      by (simp add: requireds_def)
    show "spec_unit_errors ?upper ''source'' @ spec_unit_errors ?absent ''target'' = []"
      by (simp add: ex_unit_errors)
    show "listed_ids ex_env ''5C6C69F042FACF59122418F6'' absent_id aeneid_id absent_id \<noteq> []"
      by (simp add: listed)
  qed (simp_all add: upper_case_parse ex_parse_oid)
  then have "submit_search ex_env idle_searcher upper_case_request =
     (Inr (error 400 upper_case_request
        (''Unable to find the following object_id(s) among the texts in the database:''
         @ [CHR 0x0A, CHR 0x09] @ ''5C6C69F042FACF59122418F6''
         @ [CHR 0x0A, CHR 0x09] @ absent_id)),
      idle_searcher)"
    by (simp add: upper_case_request_def request_def unit_spec_def listed)
  with upper_case_parse found show ?thesis by blast
qed

subsection \<open>Admission\<close>

text \<open>
  Claim C5. A submission that passes every validation rule, made while the queue has
  room, is answered with status 201, an empty body and the header \<^verbatim>\<open>Location\<close> equal
  to \<^verbatim>\<open>/parallels/<job_id>/\<close>, where the job id is the identifier just drawn; the job
  is appended to the queue under that identifier.
\<close>

theorem submit_search_created:
  assumes "iter_set_ok e"
    and "submit_search_validate e p = Inr (Inr accepted)"
    and "length (queue s) < maxsize s"
  shows "\<exists>name params.
    submit_search e s p =
      (Inr \<lparr>status_code = 201, body = EmptyBody, mimetype = None,
            headers = [(''Location'', ''/parallels/'' @ uuid_hex (uuid4 e) @ ''/'')]\<rparr>,
       s\<lparr>queue := queue s @ [(uuid_hex (uuid4 e), name, params)]\<rparr>)"
proof -
  obtain source_text target_text m where a: "accepted = (source_text, target_text, m)"
    by (cases accepted) auto
  from accepted_args [OF assms(1) assms(2) [unfolded a]] obtain name params where
    args: "queue_search_args p source_text target_text m = Inr (name, params)" by blast
  from assms(3) have "queue_search s (uuid_hex (uuid4 e)) name params =
      (Inr (), s\<lparr>queue := queue s @ [(uuid_hex (uuid4 e), name, params)]\<rparr>)"
    by (simp add: queue_search_def)
  with args assms(2) a have "submit_search e s p =
      (Inr \<lparr>status_code = 201, body = EmptyBody, mimetype = None,
            headers = [(''Location'', ''/parallels/'' @ uuid_hex (uuid4 e) @ ''/'')]\<rparr>,
       s\<lparr>queue := queue s @ [(uuid_hex (uuid4 e), name, params)]\<rparr>)"
    by (simp add: submit_search_def Let_def location_of_uuid)
  then show ?thesis by blast
qed

theorem submit_search_created_witness:
  "iter_set_ok ex_env
   \<and> submit_search_validate ex_env ex_request = Inr (Inr (aeneid, pharsalia, ex_method))
   \<and> length (queue idle_searcher) < maxsize idle_searcher
   \<and> fst (submit_search ex_env idle_searcher ex_request) =
       Inr \<lparr>status_code = 201, body = EmptyBody, mimetype = None,
            headers = [(''Location'', ''/parallels/9f1c2b3a4d5e6f708192a3b4c5d6e7f8/'')]\<rparr>"
proof -
  have room: "length (queue idle_searcher) < maxsize idle_searcher"
    by (simp add: idle_searcher_def)
  from submit_search_created [OF ex_env_iter_set_ok ex_request_accepted room]
  show ?thesis
    using ex_env_iter_set_ok ex_request_accepted room by (auto simp: ex_uuid_hex)
qed

subsection \<open>The queue when no job is admitted\<close>

text \<open>
  Claim C9 says that every payload on which a validation rule fails is answered with a
  400 response. A payload whose source is a number fails the rule on unit
  specifications, and the handler raises \<^verbatim>\<open>TypeError\<close> on it (a number has no keys to
  test) and returns no response.
\<close>

theorem submit_search_number_source_raises:
  "submit_search ex_env idle_searcher number_source_request = (Inl TypeError, idle_searcher)"
  by (simp add: submit_search_def number_source_request_def handler_defs example_defs)

text \<open>
  Claim C9, amended. Take a payload that is a dict, whose source, target and method are
  dicts when present, whose \<^verbatim>\<open>object_id\<close> values are strings that \<^verbatim>\<open>ObjectId\<close> accepts and
  whose method name, when present, is registered. If it fails any validation rule, the
  handler returns a 400 response that echoes the payload, and the searcher is left as it
  was. For every payload whatsoever: the queue changes only when the payload meets every
  rule, and the handler then returns a 201 response; every response that validation
  returns is a 400 response, returned with the searcher left as it was; and the searcher
  is left as it was whenever the handler raises.
\<close>

theorem submit_search_frame:
  assumes "iter_set_ok e"
  shows
  "(well_typed e p \<and> \<not> meets_rules e p
      \<longrightarrow> (\<exists>message. submit_search e s p = (Inr (error 400 p message), s)))
   \<and> (snd (submit_search e s p) \<noteq> s
        \<longrightarrow> meets_rules e p
            \<and> (\<exists>r. fst (submit_search e s p) = Inr r \<and> status_code r = 201))
   \<and> (\<forall>r. submit_search_validate e p = Inr (Inl r)
        \<longrightarrow> status_code r = 400 \<and> submit_search e s p = (Inr r, s))
   \<and> (\<forall>err. fst (submit_search e s p) = Inl err \<longrightarrow> snd (submit_search e s p) = s)"
proof (intro conjI allI impI)
  assume "well_typed e p \<and> \<not> meets_rules e p"
  with assms show "\<exists>message. submit_search e s p = (Inr (error 400 p message), s)"
    by (blast intro: rejected_400)
next
  assume changed: "snd (submit_search e s p) \<noteq> s"
  with assms show "meets_rules e p"
    by (blast dest: queue_changed_accepted intro: accepted_meets_rules)
  from changed submit_search_outcome [of e s p]
  show "\<exists>r. fst (submit_search e s p) = Inr r \<and> status_code r = 201"
    by auto
next
  fix r assume "submit_search_validate e p = Inr (Inl r)"
  then show "status_code r = 400" and "submit_search e s p = (Inr r, s)"
    by (simp_all add: validate_response_400 submit_search_def)
next
  fix err assume "fst (submit_search e s p) = Inl err"
  with submit_search_outcome [of e s p] show "snd (submit_search e s p) = s"
    by auto
qed

theorem submit_search_frame_witness:
  "iter_set_ok ex_env
   \<and> well_typed ex_env three_faults_request \<and> \<not> meets_rules ex_env three_faults_request
   \<and> (\<exists>message. submit_search ex_env idle_searcher three_faults_request =
         (Inr (error 400 three_faults_request message), idle_searcher))
   \<and> snd (submit_search ex_env idle_searcher ex_request) \<noteq> idle_searcher
   \<and> meets_rules ex_env ex_request
   \<and> (\<exists>r. fst (submit_search ex_env idle_searcher ex_request) = Inr r \<and> status_code r = 201)
   \<and> fst (submit_search ex_env idle_searcher number_source_request) = Inl TypeError
   \<and> snd (submit_search ex_env idle_searcher number_source_request) = idle_searcher"
proof -
  note ok = ex_env_iter_set_ok
  have typed: "well_typed ex_env three_faults_request"
    by (simp add: well_typed_def is_dict_def lookup_def accepted_id_def registered_name_def
        three_faults_request_def request_def unit_spec_def ex_parse_oid method_requireds_def)
  have broken: "\<not> meets_rules ex_env three_faults_request"
    by (simp add: meets_rules_def units_ok_def lookup_def three_faults_request_def request_def
        unit_spec_def)
  have raised: "fst (submit_search ex_env idle_searcher number_source_request) = Inl TypeError"
    by (simp add: submit_search_def number_source_request_def handler_defs example_defs)
  have queued: "snd (submit_search ex_env idle_searcher ex_request) \<noteq> idle_searcher"
    unfolding ex_request_queued by (simp add: idle_searcher_def)
  from submit_search_frame [OF ok, of three_faults_request idle_searcher] typed broken
  have rejected: "\<exists>message. submit_search ex_env idle_searcher three_faults_request =
         (Inr (error 400 three_faults_request message), idle_searcher)"
    by blast
  from submit_search_frame [OF ok, of ex_request idle_searcher] queued
  have admitted: "meets_rules ex_env ex_request"
    "\<exists>r. fst (submit_search ex_env idle_searcher ex_request) = Inr r \<and> status_code r = 201"
    by blast+
  from submit_search_frame [OF ok, of number_source_request idle_searcher] raised
  have unchanged: "snd (submit_search ex_env idle_searcher number_source_request) = idle_searcher"
    by blast
  from ok typed broken rejected queued admitted raised unchanged show ?thesis by blast
qed

subsection \<open>The units of the target\<close>

text \<open>
  Claim C10. Take a submission that validation accepts and replace the units of its
  target by \<^verbatim>\<open>line\<close> or \<^verbatim>\<open>phrase\<close>. Validation accepts the changed submission with the
  same texts and method, and whatever identifier is drawn for it, the queue afterwards
  holds the same method names and parameters as after the original submission. The
  unit type of every job that the handler queues is the value under \<^verbatim>\<open>units\<close> of the
  source.
\<close>

theorem target_units_not_queued:
  assumes "submit_search_validate e p = Inr (Inr accepted)"
    and "u = JStr ''line'' \<or> u = JStr ''phrase''"
  shows "submit_search_validate (e\<lparr>uuid4 := w\<rparr>) (with_target_units p u) = Inr (Inr accepted)
    \<and> map snd (queue (snd (submit_search (e\<lparr>uuid4 := w\<rparr>) s (with_target_units p u))))
        = map snd (queue (snd (submit_search e s p)))
    \<and> (\<forall>job \<in> set (queue (snd (submit_search e s p))).
          job \<in> set (queue s)
          \<or> (\<exists>source. getitem p ''source'' = Inr source
                \<and> getitem source ''units'' = Inr (unit_type (snd (snd job)))))"
proof -
  obtain source_text target_text m where a: "accepted = (source_text, target_text, m)"
    by (cases accepted) auto
  note v = validate_with_target_units [OF assms, of w]
  have same: "map snd (queue (snd (submit_search (e\<lparr>uuid4 := w\<rparr>) s (with_target_units p u))))
        = map snd (queue (snd (submit_search e s p)))"
    using assms(1) v unfolding a
    by (simp add: submit_search_def queue_search_args_with_target_units queue_search_def Let_def
        split: sum.splits prod.splits option.splits)
  have source_units: "\<forall>job \<in> set (queue (snd (submit_search e s p))).
          job \<in> set (queue s)
          \<or> (\<exists>source. getitem p ''source'' = Inr source
                \<and> getitem source ''units'' = Inr (unit_type (snd (snd job))))"
    using submit_search_outcome [of e s p] by (auto dest: queue_search_args_D)
  from v same source_units show ?thesis by blast
qed

theorem target_units_not_queued_witness:
  "submit_search_validate ex_env ex_request = Inr (Inr (aeneid, pharsalia, ex_method))
   \<and> with_target_units ex_request (JStr ''line'')
       = request (unit_spec aeneid_id ''line'') (unit_spec pharsalia_id ''line'') ex_method
   \<and> map snd (queue (snd (submit_search (ex_env\<lparr>uuid4 := 7\<rparr>) idle_searcher
         (request (unit_spec aeneid_id ''line'') (unit_spec pharsalia_id ''line'') ex_method))))
       = [(JStr ''original'', ex_params)]"
proof -
  have changed: "with_target_units ex_request (JStr ''line'')
       = request (unit_spec aeneid_id ''line'') (unit_spec pharsalia_id ''line'') ex_method"
    by (simp add: with_target_units_def update_item_def ex_request_def request_def unit_spec_def)
  have queued: "map snd (queue (snd (submit_search ex_env idle_searcher ex_request)))
       = [(JStr ''original'', ex_params)]"
    by (simp add: ex_request_queued)
  from target_units_not_queued [OF ex_request_accepted, of "JStr ''line''" 7 idle_searcher]
  show ?thesis using ex_request_accepted changed queued by simp
qed

section \<open>Properties of \<^verbatim>\<open>retrieve_status\<close>\<close>

text \<open>
  Claim C6. \<^verbatim>\<open>retrieve_status\<close> answers 404 with the text \<^verbatim>\<open>Could not find results_id\<close>
  exactly when the Store holds no status record with the given id. Otherwise it answers
  200 with a JSON body that carries the \<^verbatim>\<open>results_id\<close>, \<^verbatim>\<open>status\<close> and \<^verbatim>\<open>msg\<close> fields of
  the first such record, unchanged.
\<close>

theorem retrieve_status_by_record:
  "(case List.find (\<lambda>st. results_id st = rid) (ResultsStatus_collection (db e)) of
      None \<Rightarrow>
        retrieve_status e rid =
          \<lparr>status_code = 404, body = TextBody (Lit ''Could not find results_id''),
           mimetype = None, headers = []\<rparr>
    | Some st \<Rightarrow>
        retrieve_status e rid =
          \<lparr>status_code = 200,
           body = TextBody (Dumps (JDict [(''results_id'', JStr (results_id st)),
                    (''status'', JStr (status st)), (''message'', JStr (msg st))])),
           mimetype = Some ''application/json'', headers = []\<rparr>)
   \<and> ((status_code (retrieve_status e rid) = 404)
        = (\<forall>st \<in> set (ResultsStatus_collection (db e)). results_id st \<noteq> rid))"
proof (cases "List.find (\<lambda>st. results_id st = rid) (ResultsStatus_collection (db e))")
  case None
  then have empty: "find_ResultsStatus (db e) rid = []"
    by (simp add: find_None_filter find_ResultsStatus_def)
  then have "\<forall>st \<in> set (ResultsStatus_collection (db e)). results_id st \<noteq> rid"
    by (simp add: find_ResultsStatus_def filter_empty_conv)
  with None empty show ?thesis
    by (simp add: retrieve_status_def not_found_def)
next
  case (Some st)
  then obtain rest where found: "find_ResultsStatus (db e) rid = st # rest"
    unfolding find_ResultsStatus_def by (blast dest: find_Some_filter)
  then have "st \<in> set (find_ResultsStatus (db e) rid)" by simp
  then have "\<exists>st \<in> set (ResultsStatus_collection (db e)). results_id st = rid"
    by (auto simp: find_ResultsStatus_def)
  with Some found show ?thesis
    by (auto simp: retrieve_status_def jsonify_def)
qed

theorem retrieve_status_by_record_witness:
  "retrieve_status ex_env ''job-done'' =
     \<lparr>status_code = 200,
      body = TextBody (Dumps (JDict [(''results_id'', JStr ''job-done''),
               (''status'', JStr ''Done''), (''message'', JStr ''Done in 3.2 seconds'')])),
      mimetype = Some ''application/json'', headers = []\<rparr>
   \<and> retrieve_status ex_env ''job-unknown'' =
     \<lparr>status_code = 404, body = TextBody (Lit ''Could not find results_id''),
      mimetype = None, headers = []\<rparr>"
  using retrieve_status_by_record [where e = ex_env and rid = "''job-done''"]
    retrieve_status_by_record [where e = ex_env and rid = "''job-unknown''"]
  by (simp add: ex_env_def ex_store_def)

section \<open>Properties of \<^verbatim>\<open>retrieve_results\<close>\<close>

text \<open>
  Claim C7. When the status record of a job refers to a match set that the Store holds,
  \<^verbatim>\<open>retrieve_results\<close> answers 200 with the header \<^verbatim>\<open>Content-Encoding: gzip\<close>; its body
  is the compressed, encoded serialisation of the object whose \<^verbatim>\<open>data\<close> is the parameters
  of the match set and whose \<^verbatim>\<open>parallels\<close> are the field mappings of exactly the matches
  that refer to that match set, in the order of the Store; and every client whose
  functions invert the library's, undoing the coding that the header names, reads that
  object.
\<close>

theorem retrieve_results_round_trip:
  assumes "inverts_library c"
    and "List.find (\<lambda>st. results_id st = rid) (ResultsStatus_collection (db e)) = Some st"
    and "match_set_id st = Some m"
    and "List.find (\<lambda>ms. ms_id ms = m) (MatchSet_collection (db e)) = Some ms"
  shows "status_code (retrieve_results e rid) = 200
    \<and> map_of (headers (retrieve_results e rid)) ''Content-Encoding'' = Some ''gzip''
    \<and> body (retrieve_results e rid) =
        BytesBody (GzipCompress (Encode (Dumps
          (JDict [(''data'', parameters ms),
                  (''parallels'', JList (map json_encode
                     (filter (\<lambda>x. match_set x = m) (Match_collection (db e)))))]))))
    \<and> client_json c (retrieve_results e rid) =
        Some (JDict [(''data'', parameters ms),
                     (''parallels'', JList (map json_encode
                        (filter (\<lambda>x. match_set x = m) (Match_collection (db e)))))])"
proof -
  from assms(2) obtain rest where found: "find_ResultsStatus (db e) rid = st # rest"
    unfolding find_ResultsStatus_def by (blast dest: find_Some_filter)
  from assms(4) obtain rest' where
    ms: "filter (\<lambda>ms. ms_id ms = m) (MatchSet_collection (db e)) = ms # rest'"
    by (blast dest: find_Some_filter)
  then have "ms \<in> set (filter (\<lambda>ms. ms_id ms = m) (MatchSet_collection (db e)))" by simp
  then have id: "ms_id ms = m" by simp
  from ms assms(3) have found': "find_MatchSet (db e) (ObjectId_ref (match_set_id st)) = ms # rest'"
    by (simp add: find_MatchSet_def ObjectId_ref_def)
  let ?obj = "JDict [(''data'', parameters ms),
                  (''parallels'', JList (map json_encode
                     (filter (\<lambda>x. match_set x = m) (Match_collection (db e)))))]"
  from found found' id have r: "retrieve_results e rid =
      \<lparr>status_code = 200, body = BytesBody (GzipCompress (Encode (Dumps ?obj))),
       mimetype = Some ''application/json'', headers = [(''Content-Encoding'', ''gzip'')]\<rparr>"
    by (simp add: retrieve_results_def find_Match_def Let_def)
  from assms(1) have inv: "gunzip c (GzipCompress (Encode (Dumps ?obj))) = Some (Encode (Dumps ?obj))"
    "decode_bytes c (Encode (Dumps ?obj)) = Some (Dumps ?obj)"
    "json_loads c (Dumps ?obj) = Some ?obj"
    by (simp_all add: inverts_library_def)
  have "client_json c (retrieve_results e rid) = Some ?obj"
    unfolding r by (simp add: client_json_def content_decoded_def wire_bytes_def inv)
  with r show ?thesis by simp
qed

theorem retrieve_results_round_trip_witness:
  "inverts_library symbolic_reader
   \<and> status_code (retrieve_results ex_env ''job-done'') = 200
   \<and> map_of (headers (retrieve_results ex_env ''job-done'')) ''Content-Encoding'' = Some ''gzip''
   \<and> client_json symbolic_reader (retrieve_results ex_env ''job-done'') =
       Some (JDict [(''data'', JDict [(''feature'', JStr ''lemma'')]),
                    (''parallels'', JList [JDict [(''score'', JInt 9)], JDict [(''score'', JInt 7)]])])"
proof -
  have inv: "inverts_library symbolic_reader"
    by (simp add: inverts_library_def symbolic_reader_def)
  from retrieve_results_round_trip [OF inv, where e = ex_env and rid = "''job-done''"
      and st = "\<lparr>results_id = ''job-done'', status = ''Done'', msg = ''Done in 3.2 seconds'',
        match_set_id = Some finished_match_set\<rparr>" and m = finished_match_set
      and ms = "\<lparr>ms_id = finished_match_set, parameters = JDict [(''feature'', JStr ''lemma'')]\<rparr>"]
  show ?thesis using inv
    by (simp add: ex_env_def ex_store_def finished_match_set_def)
qed

text \<open>
  Claim C8. \<^verbatim>\<open>retrieve_results\<close> answers 404 when the Store holds no status record with
  the given id, and also when the first such record has no match set reference or refers
  to a match set that the Store does not hold. Both answers are plain 404 responses; the
  handler raises in neither case.
\<close>

theorem retrieve_results_not_found:
  "((\<forall>st \<in> set (ResultsStatus_collection (db e)). results_id st \<noteq> rid)
      \<longrightarrow> retrieve_results e rid = not_found ''Could not find results_id'')
   \<and> (\<forall>st. List.find (\<lambda>st. results_id st = rid) (ResultsStatus_collection (db e)) = Some st
          \<and> (match_set_id st = None
              \<or> (\<exists>m. match_set_id st = Some m
                    \<and> (\<forall>ms \<in> set (MatchSet_collection (db e)). ms_id ms \<noteq> m)))
      \<longrightarrow> retrieve_results e rid = not_found ''Could not find MatchSet'')
   \<and> status_code (not_found ''Could not find results_id'') = 404
   \<and> status_code (not_found ''Could not find MatchSet'') = 404"
proof (intro conjI impI allI)
  assume "\<forall>st \<in> set (ResultsStatus_collection (db e)). results_id st \<noteq> rid"
  then have "find_ResultsStatus (db e) rid = []"
    by (simp add: find_ResultsStatus_def filter_empty_conv)
  then show "retrieve_results e rid = not_found ''Could not find results_id''"
    by (simp add: retrieve_results_def)
next
  fix st
  assume a: "List.find (\<lambda>st. results_id st = rid) (ResultsStatus_collection (db e)) = Some st
          \<and> (match_set_id st = None
              \<or> (\<exists>m. match_set_id st = Some m
                    \<and> (\<forall>ms \<in> set (MatchSet_collection (db e)). ms_id ms \<noteq> m)))"
  then obtain rest where found: "find_ResultsStatus (db e) rid = st # rest"
    unfolding find_ResultsStatus_def by (blast dest: find_Some_filter)
  from a have "find_MatchSet (db e) (ObjectId_ref (match_set_id st)) = []"
    by (auto simp: find_MatchSet_def ObjectId_ref_def filter_empty_conv)
  with found show "retrieve_results e rid = not_found ''Could not find MatchSet''"
    by (simp add: retrieve_results_def)
qed (simp_all add: not_found_def)

theorem retrieve_results_not_found_witness:
  "retrieve_results ex_env ''job-unknown'' = not_found ''Could not find results_id''
   \<and> retrieve_results ex_env ''job-running'' = not_found ''Could not find MatchSet''
   \<and> retrieve_results ex_env ''job-lost'' = not_found ''Could not find MatchSet''"
  using retrieve_results_not_found [where e = ex_env and rid = "''job-unknown''"]
    retrieve_results_not_found [where e = ex_env and rid = "''job-running''"]
    retrieve_results_not_found [where e = ex_env and rid = "''job-lost''"]
  by (simp add: ex_env_def ex_store_def finished_match_set_def)

end
